theory Spec2Isabelle
  imports Main "HOL-Library.AList"
begin

section \<open>Errors and the retrying operation (\<open>attemptFileOperation\<close>)\<close>

text \<open>
  An \<open>Error\<close> object may carry a symbolic \<open>code\<close> (\<open>err.code\<close> is \<open>undefined\<close>
  when absent) and has a message. An action can throw anything (\<open>catch (err: any)\<close>):
  \<open>null\<close>, \<open>undefined\<close>, or a value whose property \<open>code\<close> can be read, which is
  an \<open>Error\<close> object in practice.
\<close>

datatype js_error = JsError (code: "string option") (message: string)

datatype thrown = ThrownNull | ThrownUndefined | Thrown js_error

record 'a attempt_result =
  data :: 'a
  error :: "js_error option"

text \<open>
  An action is a computation over some state \<open>'s\<close> that either returns a value
  or throws. The arguments \<open>...args\<close> of the source are part of the closure. The loop
  \<open>for (let i = 0; i < 2; i++)\<close> is the recursion on \<open>i\<close>; the randomised delay
  between attempts changes no state and is left out. The catch block reads \<open>err.code\<close>:
  on \<open>null\<close> and \<open>undefined\<close> that read raises a \<open>TypeError\<close>, which leaves the
  function (\<open>Inl\<close>).
\<close>

function attempt_loop ::
  "('s \<Rightarrow> (thrown + 'a) \<times> 's) \<Rightarrow> nat \<Rightarrow> 'a \<Rightarrow> js_error option \<Rightarrow> 's
     \<Rightarrow> (js_error + 'a attempt_result) \<times> 's" where
  "attempt_loop func i fallback err s =
     (if i < 2 then
        (case func s of
           (Inr v, s') \<Rightarrow> (Inr \<lparr>data = v, error = None\<rparr>, s')
         | (Inl ThrownNull, s') \<Rightarrow>
             (Inl (JsError None ''TypeError: Cannot read properties of null (reading code)''), s')
         | (Inl ThrownUndefined, s') \<Rightarrow>
             (Inl (JsError None
                     ''TypeError: Cannot read properties of undefined (reading code)''), s')
         | (Inl (Thrown e), s') \<Rightarrow>
             if code e \<noteq> Some ''ENOENT'' \<and> code e \<noteq> Some ''EBUSY''
             then (Inr \<lparr>data = fallback, error = Some e\<rparr>, s')
             else attempt_loop func (i + 1) fallback (Some e) s')
      else (Inr \<lparr>data = fallback, error = err\<rparr>, s))"
  by pat_completeness auto
termination
  by (relation "measure (\<lambda>(func, i, fallback, err, s). 2 - i)") auto

definition attemptFileOperation ::
  "'a \<Rightarrow> ('s \<Rightarrow> (thrown + 'a) \<times> 's) \<Rightarrow> 's \<Rightarrow> (js_error + 'a attempt_result) \<times> 's" where
  "attemptFileOperation fallback func s = attempt_loop func 0 fallback None s"

text \<open>
  The number of invocations is observed the way the repository's test does it: the
  action increments a counter each time it runs.
\<close>

definition counting ::
  "('s \<Rightarrow> 'r \<times> 's) \<Rightarrow> nat \<times> 's \<Rightarrow> 'r \<times> (nat \<times> 's)" where
  "counting f = (\<lambda>(n, s). case f s of (r, s') \<Rightarrow> (r, (Suc n, s')))"

definition transient :: "js_error \<Rightarrow> bool" where
  "transient e = (code e = Some ''ENOENT'' \<or> code e = Some ''EBUSY'')"

section \<open>The TTL cache (\<open>cacheOrGenerate\<close>)\<close>

text \<open>
  \<open>cachedObj\<close> is \<open>undefined\<close>/\<open>null\<close> (\<open>NoCache\<close>), an \<open>Error\<close> instance
  itself (\<open>ErrorObj\<close>), or an entry \<open>{data, time}\<close>. An entry's \<open>data\<close> is what the
  generator returned or the error it threw. A generator either returns a value, returns a
  \<open>Promise\<close>, or throws.
\<close>

datatype 'a cached = NoCache | ErrorObj js_error | Entry (cdata: "js_error + 'a") (ctime: int)

datatype 'a produced = Value 'a | PromiseObj

definition run_generate ::
  "('s \<Rightarrow> (js_error + 'a produced) \<times> 's) \<Rightarrow> int \<Rightarrow> 's \<Rightarrow> 'a cached \<times> 's" where
  "run_generate generate now s =
     (case generate s of
        (Inr (Value g), s') \<Rightarrow> (Entry (Inr g) now, s')
      | (Inr PromiseObj, s') \<Rightarrow>
          (Entry (Inl (JsError None ''Unmplemented generate response'')) now, s')
      | (Inl err, s') \<Rightarrow> (Entry (Inl err) now, s'))"

definition cacheOrGenerate ::
  "'a cached \<Rightarrow> ('s \<Rightarrow> (js_error + 'a produced) \<times> 's) \<Rightarrow> int \<Rightarrow> int \<Rightarrow> 's
     \<Rightarrow> 'a cached \<times> 's" where
  "cacheOrGenerate cachedObj generate maxCacheAge now s =
     (case cachedObj of
        NoCache \<Rightarrow> run_generate generate now s
      | ErrorObj e \<Rightarrow> run_generate generate now s
      | Entry d cachedTime \<Rightarrow>
          if cachedTime = 0 \<or> maxCacheAge < 0 then run_generate generate now s
          else if now < cachedTime + maxCacheAge then (Entry d cachedTime, s)
          else run_generate generate now s)"

section \<open>Strings\<close>

text \<open>
  JavaScript's \<open>split\<close>, \<open>join\<close>, \<open>startsWith\<close>, \<open>endsWith\<close> and the three
  global replacements the path code uses: \<open>replace(/\\/g, "/")\<close>,
  \<open>replace(/\/\/+/g, "/")\<close> and \<open>replace(/\?/g, "")\<close>.
\<close>

fun split_on :: "char \<Rightarrow> string \<Rightarrow> string list" where
  "split_on c [] = [[]]"
| "split_on c (x # xs) =
     (if x = c then [] # split_on c xs
      else (case split_on c xs of [] \<Rightarrow> [[x]] | w # ws \<Rightarrow> (x # w) # ws))"

fun join_with :: "string \<Rightarrow> string list \<Rightarrow> string" where
  "join_with sep [] = []"
| "join_with sep [x] = x"
| "join_with sep (x # y # ys) = x @ sep @ join_with sep (y # ys)"

definition startsWith :: "string \<Rightarrow> string \<Rightarrow> bool" where
  "startsWith s t = (take (length t) s = t)"

definition endsWith :: "string \<Rightarrow> string \<Rightarrow> bool" where
  "endsWith s t = (length t \<le> length s \<and> drop (length s - length t) s = t)"

definition replace_backslash :: "string \<Rightarrow> string" where
  "replace_backslash s = map (\<lambda>c. if c = CHR 0x5C then CHR ''/'' else c) s"

function collapse_slashes :: "string \<Rightarrow> string" where
  "collapse_slashes [] = []"
| "collapse_slashes (c # cs) =
     (if c = CHR ''/'' then CHR ''/'' # collapse_slashes (dropWhile (\<lambda>d. d = CHR ''/'') cs)
      else c # collapse_slashes cs)"
  by pat_completeness auto
termination
  by (relation "measure length") (auto simp: less_Suc_eq_le length_dropWhile_le)

definition remove_question :: "string \<Rightarrow> string" where
  "remove_question s = filter (\<lambda>c. c \<noteq> CHR ''?'') s"

definition strip_trailing_slash :: "string \<Rightarrow> string" where
  "strip_trailing_slash p = (if endsWith p ''/'' then take (length p - 1) p else p)"

section \<open>The environment: \<open>path.resolve\<close> and the working directory\<close>

text \<open>
  \<open>path.resolve\<close> belongs to the runtime, not to the repository. Its POSIX behaviour for one
  argument is modelled here: the argument is taken as it is when it starts with a slash,
  and is appended to the working directory otherwise; then empty and \<open>.\<close> segments are
  dropped and each \<open>..\<close> removes the segment before it (at the root it is dropped).
  The working directory, \<open>process.cwd()\<close>, is a parameter.
\<close>

fun normalize_segments :: "bool \<Rightarrow> string list \<Rightarrow> string list \<Rightarrow> string list" where
  "normalize_segments allowAboveRoot res [] = res"
| "normalize_segments allowAboveRoot res (seg # segs) =
     (if seg = [] \<or> seg = ''.'' then normalize_segments allowAboveRoot res segs
      else if seg = ''..'' then
        (if res \<noteq> [] \<and> last res \<noteq> ''..''
         then normalize_segments allowAboveRoot (butlast res) segs
         else if allowAboveRoot then normalize_segments allowAboveRoot (res @ [''..'']) segs
         else normalize_segments allowAboveRoot res segs)
      else normalize_segments allowAboveRoot (res @ [seg]) segs)"

definition posix_resolve :: "string \<Rightarrow> string \<Rightarrow> string" where
  "posix_resolve cwd p =
     (let (resolvedPath, resolvedAbsolute) =
            (if p \<noteq> [] \<and> hd p = CHR ''/'' then (p @ ''/'', True)
             else let rp = (if p = [] then [] else p @ ''/'')
                  in if cwd = [] then (rp, False)
                     else (cwd @ ''/'' @ rp, hd cwd = CHR ''/''));
          n = join_with ''/''
                (normalize_segments (\<not> resolvedAbsolute) [] (split_on CHR ''/'' resolvedPath))
      in if resolvedAbsolute then CHR ''/'' # n else if n \<noteq> [] then n else ''.'')"

section \<open>The path resolver (\<open>parseAsyncFsArgs\<close>)\<close>

text \<open>
  The resolver takes arguments of any shape. Arrays and objects carry an address, since
  \<open>===\<close> compares them by reference. A number is given by the string its
  \<open>toString()\<close> returns: the resolver uses a number as a path segment, which is that
  string, and as a property key of an array, which is that string too; two numbers are
  \<open>===\<close> when their strings are equal, except \<open>NaN\<close>.
\<close>

datatype jsval =
    Undefined
  | Null
  | Bool bool
  | Num string
  | Str string
  | Arr nat "jsval list"
  | Obj nat "(string \<times> jsval) list"
  | Func nat

definition strict_eq :: "jsval \<Rightarrow> jsval \<Rightarrow> bool" where
  "strict_eq x y =
     (case x of
        Arr a xs \<Rightarrow> (case y of Arr b ys \<Rightarrow> a = b | _ \<Rightarrow> False)
      | Obj a xs \<Rightarrow> (case y of Obj b ys \<Rightarrow> a = b | _ \<Rightarrow> False)
      | Func a \<Rightarrow> (case y of Func b \<Rightarrow> a = b | _ \<Rightarrow> False)
      | Num a \<Rightarrow> (case y of Num b \<Rightarrow> a = b \<and> a \<noteq> ''NaN'' | _ \<Rightarrow> False)
      | _ \<Rightarrow> x = y)"

text \<open>
  \<open>array[key]\<close>: an element when the key is the decimal numeral of an index of the
  array (digits only, no leading zero), \<open>undefined\<close> otherwise.
\<close>

definition is_digit :: "char \<Rightarrow> bool" where
  "is_digit c = (48 \<le> (of_char c :: nat) \<and> (of_char c :: nat) \<le> 57)"

definition array_index :: "string \<Rightarrow> nat option" where
  "array_index k =
     (if k \<noteq> [] \<and> list_all is_digit k \<and> (k = ''0'' \<or> hd k \<noteq> CHR ''0'')
      then Some (foldl (\<lambda>n c. 10 * n + ((of_char c :: nat) - 48)) 0 k)
      else None)"

definition js_index :: "jsval list \<Rightarrow> string \<Rightarrow> jsval" where
  "js_index xs k =
     (case array_index k of
        Some n \<Rightarrow> if n < length xs then xs ! n else Undefined
      | None \<Rightarrow> Undefined)"

definition relevant_args :: "jsval list \<Rightarrow> jsval list" where
  "relevant_args args =
     (case args of
        [a0, Num n, Arr ad xs] \<Rightarrow> if strict_eq (js_index xs n) a0 then [a0] else args
      | _ \<Rightarrow> args)"

definition path_keys :: "string list" where
  "path_keys = [''name'', ''path'', ''filePath'', ''filepath'', ''file_path'',
                ''fullPath'', ''fullpath'', ''full_path'']"

definition find_key :: "(string \<times> jsval) list \<Rightarrow> string option" where
  "find_key a =
     (case find (\<lambda>k. case map_of a k of Some (Str v) \<Rightarrow> v \<noteq> [] | _ \<Rightarrow> False) path_keys of
        None \<Rightarrow> None
      | Some k \<Rightarrow> (case map_of a k of Some (Str v) \<Rightarrow> Some v | _ \<Rightarrow> None))"

text \<open>
  The loop \<open>for (let i = 0; i < relevant.length; i++)\<close> runs over an array that grows
  while it is read: the elements of an array argument are pushed at its end. The second
  argument is what is left of \<open>relevant\<close> from index \<open>i\<close> on.
\<close>

function parse_loop ::
  "nat \<Rightarrow> jsval list \<Rightarrow> string list \<Rightarrow> (nat \<times> jsval) list
     \<Rightarrow> string list \<times> (nat \<times> jsval) list" where
  "parse_loop i [] parts problems = (parts, problems)"
| "parse_loop i (a # rest) parts problems =
     (case a of
        Undefined \<Rightarrow> parse_loop (i + 1) rest parts problems
      | Null \<Rightarrow> parse_loop (i + 1) rest parts problems
      | Str s \<Rightarrow>
          if parts = [] \<and> s = [] then parse_loop (i + 1) rest (parts @ [''.'']) problems
          else parse_loop (i + 1) rest (parts @ [s]) problems
      | Num n \<Rightarrow> parse_loop (i + 1) rest (parts @ [n]) problems
      | Bool b \<Rightarrow> parse_loop (i + 1) rest parts (problems @ [(i, a)])
      | Arr ad xs \<Rightarrow> parse_loop (i + 1) (rest @ xs) parts problems
      | Obj ad kvs \<Rightarrow>
          (case (if kvs \<noteq> [] then find_key kvs else None) of
             Some v \<Rightarrow> parse_loop (i + 1) rest (parts @ [v]) problems
           | None \<Rightarrow> parse_loop (i + 1) rest parts (problems @ [(i, a)]))
      | Func ad \<Rightarrow> parse_loop (i + 1) rest parts (problems @ [(i, a)]))"
  by pat_completeness auto
termination
  by (relation "measure (\<lambda>(i, q, parts, problems). size_list size q)") auto

record parsed =
  path :: string
  parts :: "string list"
  problems :: "(nat \<times> jsval) list"

definition parseAsyncFsArgs :: "string \<Rightarrow> jsval list \<Rightarrow> parsed" where
  "parseAsyncFsArgs cwd args =
     (let (parts, problems) = parse_loop 0 (relevant_args args) [] [];
          p = remove_question (collapse_slashes (replace_backslash (join_with ''/'' parts)));
          p = strip_trailing_slash p;
          p = replace_backslash (posix_resolve cwd p);
          prefix = replace_backslash cwd;
          p = (if startsWith prefix (p @ ''/'') then ''.'' @ drop (length prefix) p else p)
      in \<lparr>path = p, parts = parts, problems = problems\<rparr>)"

section \<open>The operating system\<close>

text \<open>
  The file system maps absolute, normalised paths to entries: a regular file with its
  bytes, or a directory. The root directory always exists. Failures carry the code the
  operating system reports. Symbolic links, devices and permissions are outside this model.
\<close>

datatype entry = File string | Dir

record os =
  cwd :: string
  files :: "(string \<times> entry) list"

datatype stats = Stats (isFile: bool) (isDirectory: bool) (st_size: nat)

datatype fs_value = VNull | VUndefined | VStats stats | VNames "string list" | VBuffer string

datatype fs_method = M_stat | M_mkdir | M_readdir | M_readFile | M_writeFile | M_appendFile

definition os_error :: "string \<Rightarrow> js_error" where
  "os_error c = JsError (Some c) c"

definition lookup_entry :: "os \<Rightarrow> string \<Rightarrow> entry option" where
  "lookup_entry w q = (if q = ''/'' then Some Dir else map_of (files w) q)"

definition dirname_abs :: "string \<Rightarrow> string" where
  "dirname_abs q =
     (let d = join_with ''/'' (butlast (split_on CHR ''/'' q)) in if d = [] then ''/'' else d)"

definition child_name :: "string \<Rightarrow> string \<Rightarrow> string option" where
  "child_name d q =
     (let pre = (if d = ''/'' then ''/'' else d @ ''/''); rest = drop (length pre) q
      in if startsWith q pre \<and> rest \<noteq> [] \<and> CHR ''/'' \<notin> set rest then Some rest else None)"

text \<open>
  Path resolution, as the operating system does it: an absolute path starts at the root, any
  other at the working directory; the segments are taken one by one, and each is looked up
  in a directory that must exist (\<open>ENOENT\<close>) and be a directory (\<open>ENOTDIR\<close>); an empty
  segment and \<open>.\<close> stay, \<open>..\<close> goes to the parent. The result is the location of the
  last segment and the entry there, if any; a last segment that does not exist may be
  followed by slashes only. The working directory is an absolute, normalised path.
\<close>

fun walk :: "os \<Rightarrow> string \<Rightarrow> string list \<Rightarrow> js_error + string \<times> entry option" where
  "walk w cur [] = Inr (cur, lookup_entry w cur)"
| "walk w cur (seg # segs) =
     (case lookup_entry w cur of
        None \<Rightarrow> Inl (os_error ''ENOENT'')
      | Some (File b) \<Rightarrow> Inl (os_error ''ENOTDIR'')
      | Some Dir \<Rightarrow>
          if seg = [] \<or> seg = ''.'' then walk w cur segs
          else if seg = ''..'' then walk w (dirname_abs cur) segs
          else
            (let child = (if cur = ''/'' then cur @ seg else cur @ ''/'' @ seg) in
             case lookup_entry w child of
               None \<Rightarrow>
                 if list_all (\<lambda>x. x = []) segs then Inr (child, None)
                 else Inl (os_error ''ENOENT'')
             | Some e \<Rightarrow> walk w child segs))"

definition locate :: "os \<Rightarrow> string \<Rightarrow> js_error + string \<times> entry option" where
  "locate w p =
     (if p = [] then Inl (os_error ''ENOENT'')
      else if hd p = CHR ''/'' then walk w ''/'' (split_on CHR ''/'' (tl p))
      else walk w (cwd w) (split_on CHR ''/'' p))"

definition os_stat :: "os \<Rightarrow> string \<Rightarrow> js_error + stats" where
  "os_stat w p =
     (case locate w p of
        Inl e \<Rightarrow> Inl e
      | Inr (q, None) \<Rightarrow> Inl (os_error ''ENOENT'')
      | Inr (q, Some (File b)) \<Rightarrow> Inr (Stats True False (length b))
      | Inr (q, Some Dir) \<Rightarrow> Inr (Stats False True 0))"

definition os_readdir :: "os \<Rightarrow> string \<Rightarrow> js_error + string list" where
  "os_readdir w p =
     (case locate w p of
        Inl e \<Rightarrow> Inl e
      | Inr (q, None) \<Rightarrow> Inl (os_error ''ENOENT'')
      | Inr (q, Some (File b)) \<Rightarrow> Inl (os_error ''ENOTDIR'')
      | Inr (q, Some Dir) \<Rightarrow>
          Inr (remdups (List.map_filter (\<lambda>(k, e). child_name q k) (files w))))"

definition os_readFile :: "os \<Rightarrow> string \<Rightarrow> js_error + string" where
  "os_readFile w p =
     (case locate w p of
        Inl e \<Rightarrow> Inl e
      | Inr (q, None) \<Rightarrow> Inl (os_error ''ENOENT'')
      | Inr (q, Some (File b)) \<Rightarrow> Inr b
      | Inr (q, Some Dir) \<Rightarrow> Inl (os_error ''EISDIR''))"

definition os_store :: "os \<Rightarrow> string \<Rightarrow> (string \<Rightarrow> string) \<Rightarrow> js_error + os" where
  "os_store w p content =
     (case locate w p of
        Inl e \<Rightarrow> Inl e
      | Inr (q, Some Dir) \<Rightarrow> Inl (os_error ''EISDIR'')
      | Inr (q, Some (File old)) \<Rightarrow>
          Inr (w\<lparr>files := AList.update q (File (content old)) (files w)\<rparr>)
      | Inr (q, None) \<Rightarrow>
          if endsWith p ''/'' then Inl (os_error ''EISDIR'')
          else Inr (w\<lparr>files := AList.update q (File (content [])) (files w)\<rparr>))"

definition os_writeFile :: "os \<Rightarrow> string \<Rightarrow> string \<Rightarrow> js_error + os" where
  "os_writeFile w p b = os_store w p (\<lambda>old. b)"

definition os_appendFile :: "os \<Rightarrow> string \<Rightarrow> string \<Rightarrow> js_error + os" where
  "os_appendFile w p b = os_store w p (\<lambda>old. old @ b)"

definition os_mkdir :: "os \<Rightarrow> string \<Rightarrow> js_error + os" where
  "os_mkdir w p =
     (case locate w p of
        Inl e \<Rightarrow> Inl e
      | Inr (q, Some e) \<Rightarrow> Inl (os_error ''EEXIST'')
      | Inr (q, None) \<Rightarrow> Inr (w\<lparr>files := AList.update q Dir (files w)\<rparr>))"

text \<open>
  \<open>mkdir\<close> with \<open>{recursive: true}\<close> resolves the path in the same way and creates
  every directory that is missing on the way.
\<close>

fun mkdir_walk :: "os \<Rightarrow> string \<Rightarrow> string list \<Rightarrow> js_error + os" where
  "mkdir_walk w cur [] = Inr w"
| "mkdir_walk w cur (seg # segs) =
     (case lookup_entry w cur of
        None \<Rightarrow> Inl (os_error ''ENOENT'')
      | Some (File b) \<Rightarrow> Inl (os_error ''ENOTDIR'')
      | Some Dir \<Rightarrow>
          if seg = [] \<or> seg = ''.'' then mkdir_walk w cur segs
          else if seg = ''..'' then mkdir_walk w (dirname_abs cur) segs
          else
            (let child = (if cur = ''/'' then cur @ seg else cur @ ''/'' @ seg) in
             case lookup_entry w child of
               None \<Rightarrow> mkdir_walk (w\<lparr>files := AList.update child Dir (files w)\<rparr>) child segs
             | Some Dir \<Rightarrow> mkdir_walk w child segs
             | Some (File b) \<Rightarrow>
                 Inl (os_error (if list_all (\<lambda>x. x = []) segs then ''EEXIST''
                                else ''ENOTDIR''))))"

definition os_mkdir_recursive :: "os \<Rightarrow> string \<Rightarrow> js_error + os" where
  "os_mkdir_recursive w p =
     (if p = [] then Inl (os_error ''ENOENT'')
      else if hd p = CHR ''/'' then mkdir_walk w ''/'' (split_on CHR ''/'' (tl p))
      else mkdir_walk w (cwd w) (split_on CHR ''/'' p))"

text \<open>
  A bound method is a member of \<open>fs.promises\<close> applied to a path; it takes what the
  caller passes after the path. \<open>readFile\<close> takes its second argument as options and
  reads the file whatever buffer it is given there.
\<close>

datatype fs_arg = NoArg | BufferArg string | RecursiveOpt

definition call_method ::
  "fs_method \<Rightarrow> string \<Rightarrow> fs_arg \<Rightarrow> os \<Rightarrow> (js_error + fs_value) \<times> os" where
  "call_method m p arg w =
     (case m of
        M_stat \<Rightarrow> (map_sum id VStats (os_stat w p), w)
      | M_readdir \<Rightarrow> (map_sum id VNames (os_readdir w p), w)
      | M_readFile \<Rightarrow> (map_sum id VBuffer (os_readFile w p), w)
      | M_writeFile \<Rightarrow>
          (case os_writeFile w p (case arg of BufferArg b \<Rightarrow> b | _ \<Rightarrow> ''undefined'') of
             Inl e \<Rightarrow> (Inl e, w) | Inr w' \<Rightarrow> (Inr VUndefined, w'))
      | M_appendFile \<Rightarrow>
          (case os_appendFile w p (case arg of BufferArg b \<Rightarrow> b | _ \<Rightarrow> ''undefined'') of
             Inl e \<Rightarrow> (Inl e, w) | Inr w' \<Rightarrow> (Inr VUndefined, w'))
      | M_mkdir \<Rightarrow>
          (case (if arg = RecursiveOpt then os_mkdir_recursive w p else os_mkdir w p) of
             Inl e \<Rightarrow> (Inl e, w) | Inr w' \<Rightarrow> (Inr VUndefined, w')))"

section \<open>The asynchronous variant (\<open>AsyncFsObj\<close>)\<close>

text \<open>
  Objects live in a heap: a reference is an index into \<open>nodes\<close>. The static
  \<open>instanceCacheRecord\<close> maps a path to the reference stored under it; the members
  every JavaScript object inherits are not part of the map (no resolved path, which
  starts with a slash or is a dot, is the name of one). A rejected promise
  is an \<open>Inl\<close> result. The table \<open>_methods\<close> only memoises the bound functions and is
  left out. The flag \<open>strict\<close> is the value of the source's mode test: the TypeScript
  source tests \<open>operation === "strict"\<close>, which is false for its constant
  \<open>operation = "normal"\<close>; the JavaScript source tests \<open>operation\<close>, which is true.
\<close>

record async_node =
  node_path :: string
  cachedStat :: "stats option"
  node_parent :: "nat option"

record async_state =
  os :: os
  nodes :: "async_node list"
  instanceCacheRecord :: "string \<rightharpoonup> nat"

datatype ftype = FileT | FolderT | UnknownT

definition fromCache :: "string \<Rightarrow> async_state \<Rightarrow> nat \<times> async_state" where
  "fromCache p st =
     (case instanceCacheRecord st p of
        Some r \<Rightarrow> (r, st)
      | None \<Rightarrow>
          (length (nodes st),
           st\<lparr>nodes := nodes st @ [\<lparr>node_path = p, cachedStat = None, node_parent = None\<rparr>],
              instanceCacheRecord := (instanceCacheRecord st)(p \<mapsto> length (nodes st))\<rparr>))"

definition getBoundMethod ::
  "fs_method \<Rightarrow> nat \<Rightarrow> async_state \<Rightarrow> fs_arg \<Rightarrow> os \<Rightarrow> (js_error + fs_value) \<times> os" where
  "getBoundMethod m r st = call_method m (node_path (nodes st ! r))"

text \<open>
  The members of \<open>fs.promises\<close> reject with \<open>Error\<close> objects. With such an action
  \<open>attemptFileOperation\<close> always returns (lemma \<open>attempt_rejecting_returns\<close> below), so
  the second case of \<open>attempt_os\<close> never arises.
\<close>

definition rejecting :: "('s \<Rightarrow> (js_error + 'a) \<times> 's) \<Rightarrow> 's \<Rightarrow> (thrown + 'a) \<times> 's" where
  "rejecting func s = (case func s of (r, s') \<Rightarrow> (map_sum Thrown id r, s'))"

definition attempt_os ::
  "fs_value \<Rightarrow> (os \<Rightarrow> (js_error + fs_value) \<times> os) \<Rightarrow> async_state
     \<Rightarrow> fs_value attempt_result \<times> async_state" where
  "attempt_os fallback func st =
     (case attemptFileOperation fallback (rejecting func) (os st) of
        (Inr res, w) \<Rightarrow> (res, st\<lparr>os := w\<rparr>)
      | (Inl e, w) \<Rightarrow> (\<lparr>data = fallback, error = Some e\<rparr>, st\<lparr>os := w\<rparr>))"

definition async_stat :: "nat \<Rightarrow> async_state \<Rightarrow> stats option \<times> async_state" where
  "async_stat r st =
     (case attempt_os VNull (getBoundMethod M_stat r st NoArg) st of
        (res, st1) \<Rightarrow>
          (case (error res, data res) of
             (None, VStats s) \<Rightarrow>
               (Some s, st1\<lparr>nodes := (nodes st1)[r := (nodes st1 ! r)\<lparr>cachedStat := Some s\<rparr>]\<rparr>)
           | _ \<Rightarrow> (None, st1)))"

definition async_type :: "nat \<Rightarrow> async_state \<Rightarrow> ftype \<times> async_state" where
  "async_type r st =
     (case async_stat r st of
        (Some s, st1) \<Rightarrow>
          (if isFile s then FileT else if isDirectory s then FolderT else UnknownT, st1)
      | (None, st1) \<Rightarrow> (UnknownT, st1))"

text \<open>\<open>file()\<close> and \<open>folder()\<close> answer true, false or \<open>undefined\<close> (\<open>None\<close>).\<close>

definition async_file :: "nat \<Rightarrow> async_state \<Rightarrow> bool option \<times> async_state" where
  "async_file r st =
     (case async_type r st of
        (t, st1) \<Rightarrow> (if t = FileT then Some True else if t = FolderT then Some False else None, st1))"

definition async_folder :: "nat \<Rightarrow> async_state \<Rightarrow> bool option \<times> async_state" where
  "async_folder r st =
     (case async_type r st of
        (t, st1) \<Rightarrow> (if t = FolderT then Some True else if t = FileT then Some False else None, st1))"

definition async_exists :: "nat \<Rightarrow> async_state \<Rightarrow> bool \<times> async_state" where
  "async_exists r st = (case async_stat r st of (s, st1) \<Rightarrow> (s \<noteq> None, st1))"

definition async_write ::
  "bool \<Rightarrow> nat \<Rightarrow> string \<Rightarrow> bool \<Rightarrow> async_state \<Rightarrow> (js_error + bool) \<times> async_state" where
  "async_write strict r buffer overwrite st =
     (case (if \<not> overwrite then (case async_file r st of (f, st1) \<Rightarrow> (f \<noteq> Some True, st1))
            else (False, st)) of
        (True, st1) \<Rightarrow>
          (Inl (JsError None (''Write target already exists at '' @ node_path (nodes st ! r)
                              @ '' (overwrite disabled)'')), st1)
      | (False, st1) \<Rightarrow>
          (case (if strict then (case async_folder r st1 of (f, st2) \<Rightarrow> (f = Some True, st2))
                 else (False, st1)) of
             (True, st2) \<Rightarrow>
               (Inl (JsError None (''Cannot write on folder at '' @ node_path (nodes st ! r))), st2)
           | (False, st2) \<Rightarrow>
               (case attempt_os VNull (getBoundMethod M_readFile r st2 (BufferArg buffer)) st2 of
                  (res, st3) \<Rightarrow>
                    (case error res of
                       Some e \<Rightarrow> if strict then (Inl e, st3) else (Inr False, st3)
                     | None \<Rightarrow> (Inr True, st3)))))"

definition async_append ::
  "bool \<Rightarrow> nat \<Rightarrow> string \<Rightarrow> bool \<Rightarrow> async_state \<Rightarrow> (js_error + bool) \<times> async_state" where
  "async_append strict r buffer mustExist st =
     (case (if mustExist then (case async_file r st of (f, st1) \<Rightarrow> (f \<noteq> Some True, st1))
            else (False, st)) of
        (True, st1) \<Rightarrow>
          (Inl (JsError None (''Append file target does not exists at ''
                              @ node_path (nodes st ! r))), st1)
      | (False, st1) \<Rightarrow>
          (case (if strict then (case async_folder r st1 of (f, st2) \<Rightarrow> (f = Some True, st2))
                 else (False, st1)) of
             (True, st2) \<Rightarrow>
               (Inl (JsError None (''Cannot write on non-file at '' @ node_path (nodes st ! r))), st2)
           | (False, st2) \<Rightarrow>
               (case attempt_os VNull (getBoundMethod M_readFile r st2 (BufferArg buffer)) st2 of
                  (res, st3) \<Rightarrow>
                    (case error res of
                       Some e \<Rightarrow> if strict then (Inl e, st3) else (Inr False, st3)
                     | None \<Rightarrow> (Inr True, st3)))))"

text \<open>\<open>data()\<close> of the TypeScript source: the bytes, \<open>null\<close> or \<open>undefined\<close>.\<close>

definition async_data ::
  "bool \<Rightarrow> nat \<Rightarrow> async_state \<Rightarrow> (js_error + fs_value) \<times> async_state" where
  "async_data strict r st =
     (case async_file r st of
        (f, st1) \<Rightarrow>
          if f \<noteq> Some True then
            (if strict
             then (Inl (JsError None (''Cannot get data of non-file at '' @ node_path (nodes st ! r))), st1)
             else (Inr VUndefined, st1))
          else
            (case attempt_os VNull (getBoundMethod M_readFile r st1 NoArg) st1 of
               (res, st2) \<Rightarrow>
                 (case (error res, data res) of
                    (Some e, d) \<Rightarrow> if strict then (Inl e, st2) else (Inr VNull, st2)
                  | (None, VBuffer b) \<Rightarrow> (Inr (VBuffer b), st2)
                  | (None, d) \<Rightarrow> (Inr VNull, st2))))"

text \<open>
  \<open>children(filter)\<close>: every name the directory listing returns is resolved by
  \<open>parseAsyncFsArgs(name)\<close> and looked up in the object cache.
\<close>

fun map_fromCache :: "string list \<Rightarrow> async_state \<Rightarrow> nat list \<times> async_state" where
  "map_fromCache [] st = ([], st)"
| "map_fromCache (name # names) st =
     (case fromCache (path (parseAsyncFsArgs (cwd (os st)) [Str name])) st of
        (r, st1) \<Rightarrow> (case map_fromCache names st1 of (rs, st2) \<Rightarrow> (r # rs, st2)))"

type_synonym child_filter =
  "nat \<Rightarrow> nat \<Rightarrow> nat list \<Rightarrow> async_state \<Rightarrow> (js_error + bool) \<times> async_state"

fun filter_loop ::
  "child_filter \<Rightarrow> nat list \<Rightarrow> nat \<Rightarrow> nat list \<Rightarrow> nat list \<Rightarrow> async_state
     \<Rightarrow> (js_error + nat list) \<times> async_state" where
  "filter_loop f list i [] filtered st = (Inr filtered, st)"
| "filter_loop f list i (x # xs) filtered st =
     (case f x i list st of
        (Inl e, st1) \<Rightarrow> (Inl e, st1)
      | (Inr veredict, st1) \<Rightarrow>
          filter_loop f list (i + 1) xs (if veredict then filtered @ [x] else filtered) st1)"

definition async_children ::
  "bool \<Rightarrow> nat \<Rightarrow> child_filter option \<Rightarrow> async_state
     \<Rightarrow> (js_error + nat list) \<times> async_state" where
  "async_children strict r flt st =
     (case async_type r st of
        (t, st1) \<Rightarrow>
          if t \<noteq> FolderT then
            (if strict
             then (Inl (JsError None (''Cannot get children of non-folder at ''
                                      @ node_path (nodes st ! r))), st1)
             else (Inr [], st1))
          else
            (case attempt_os (VNames []) (getBoundMethod M_readdir r st1 NoArg) st1 of
               (res, st2) \<Rightarrow>
                 (case (error res, data res) of
                    (None, VNames (n # ns)) \<Rightarrow>
                      (case map_fromCache (n # ns) st2 of
                         (list, st3) \<Rightarrow>
                           (case flt of
                              None \<Rightarrow> (Inr list, st3)
                            | Some f \<Rightarrow> filter_loop f list 0 list [] st3))
                  | _ \<Rightarrow> (Inr [], st2))))"

text \<open>
  \<open>asyncFs(...args)\<close> under the source's mode \<open>operation = "normal"\<close>: arguments the
  resolver could not read raise; otherwise the path is looked up in the object cache.
\<close>

definition asyncFs :: "jsval list \<Rightarrow> async_state \<Rightarrow> (js_error + nat) \<times> async_state" where
  "asyncFs args st =
     (if problems (parseAsyncFsArgs (cwd (os st)) args) \<noteq> []
      then (Inl (JsError None ''Invalid arguments''), st)
      else (case fromCache (path (parseAsyncFsArgs (cwd (os st)) args)) st of
              (r, st1) \<Rightarrow> (Inr r, st1)))"

text \<open>
  The \<open>parent\<close> getter. \<open>toUpperCase\<close> acts on ASCII letters here; \<open>replace(":", "")\<close>
  removes the first colon. \<open>path.dirname\<close> is applied to a result of \<open>path.resolve\<close>
  only, an absolute normalised path, where it drops the last segment.
\<close>

definition toUpperCase :: "string \<Rightarrow> string" where
  "toUpperCase s =
     map (\<lambda>c. if 97 \<le> (of_char c :: nat) \<and> (of_char c :: nat) \<le> 122
                then char_of ((of_char c :: nat) - 32) else c) s"

definition async_parent :: "nat \<Rightarrow> async_state \<Rightarrow> (js_error + nat) \<times> async_state" where
  "async_parent r st =
     (case node_parent (nodes st ! r) of
        Some p \<Rightarrow> (Inr p, st)
      | None \<Rightarrow>
          (let pth = node_path (nodes st ! r) in
           if pth = ''/'' \<or> remove1 CHR '':'' (toUpperCase pth) = ''C/''
              \<or> remove1 CHR '':'' (toUpperCase pth) = ''D/''
           then (Inl (JsError None ''Unsupported parent''), st)
           else
             (let parts = split_on CHR ''/'' pth;
                  parent =
                    (if length parts \<le> 2
                     then split_on CHR ''/''
                            (replace_backslash (dirname_abs (posix_resolve (cwd (os st)) pth)))
                     else take (length parts - 1) parts)
              in case fromCache (join_with ''/'' parent) st of
                   (p, st1) \<Rightarrow>
                     (Inr p,
                      st1\<lparr>nodes := (nodes st1)[r := (nodes st1 ! r)\<lparr>node_parent := Some p\<rparr>]\<rparr>))))"

definition async_siblings ::
  "bool \<Rightarrow> nat \<Rightarrow> async_state \<Rightarrow> (js_error + nat list) \<times> async_state" where
  "async_siblings strict r st =
     (case async_parent r st of
        (Inl e, st1) \<Rightarrow> (Inl e, st1)
      | (Inr p, st1) \<Rightarrow>
          (case async_type p st1 of
             (ptype, st2) \<Rightarrow>
               if ptype \<noteq> FolderT then
                 (if strict
                  then (Inl (JsError None (''Cannot get children of non-folder at ''
                                           @ node_path (nodes st2 ! p))), st2)
                  else (Inr [], st2))
               else
                 (case async_children strict p None st2 of
                    (Inl e, st3) \<Rightarrow> (Inl e, st3)
                  | (Inr list, st3) \<Rightarrow>
                      (case async_type r st3 of
                         (t, st4) \<Rightarrow>
                           if t \<noteq> UnknownT \<and> r \<notin> set list \<and> strict
                           then (Inl (JsError None
                                   ''Something went wrong finding itself on parent children''), st4)
                           else (Inr (filter (\<lambda>f. f \<noteq> r) list), st4)))))"

text \<open>\<open>files()\<close> and \<open>folders()\<close> are \<open>children\<close> with \<open>file()\<close> and \<open>folder()\<close> as filters.\<close>

definition file_filter :: child_filter where
  "file_filter f i list st = (case async_file f st of (v, st1) \<Rightarrow> (Inr (v = Some True), st1))"

definition folder_filter :: child_filter where
  "folder_filter f i list st = (case async_folder f st of (v, st1) \<Rightarrow> (Inr (v = Some True), st1))"

text \<open>
  \<open>mkdir(name?)\<close>: without a name (or with an empty one) the node creates itself, with
  its ancestors; with a name it creates the child of that name.
\<close>

definition async_mkdir_self ::
  "bool \<Rightarrow> nat \<Rightarrow> async_state \<Rightarrow> (js_error + nat) \<times> async_state" where
  "async_mkdir_self strict r st =
     (case async_type r st of
        (t, st1) \<Rightarrow>
          if t = FolderT then (Inr r, st1)
          else if t = FileT then
            (Inl (JsError None (''Cannot create folder on an existing file at ''
                                @ node_path (nodes st ! r))), st1)
          else
            (case attempt_os VNull (getBoundMethod M_mkdir r st1 RecursiveOpt) st1 of
               (res, st2) \<Rightarrow>
                 (case error res of
                    Some e \<Rightarrow> if strict then (Inl e, st2) else (Inr r, st2)
                  | None \<Rightarrow> (Inr r, st2))))"

definition async_mkdir ::
  "bool \<Rightarrow> nat \<Rightarrow> string option \<Rightarrow> async_state \<Rightarrow> (js_error + nat) \<times> async_state" where
  "async_mkdir strict r name st =
     (case name of
        None \<Rightarrow> async_mkdir_self strict r st
      | Some n \<Rightarrow>
          if n = [] then async_mkdir_self strict r st
          else
            (case async_type r st of
               (t, st1) \<Rightarrow>
                 if CHR ''/'' \<in> set n \<or> CHR 0x5C \<in> set n
                 then (Inl (JsError None (''Cannot create child folder with name '' @ n)), st1)
                 else if t = FileT
                 then (Inl (JsError None (''Cannot create folder inside an existing file at ''
                                          @ node_path (nodes st ! r))), st1)
                 else
                   (case fromCache (node_path (nodes st1 ! r) @ ''/'' @ n) st1 of
                      (target, st2) \<Rightarrow>
                        (case async_type target st2 of
                           (targetType, st3) \<Rightarrow>
                             if targetType = FileT
                             then (Inl (JsError None
                                     (''Cannot create folder on an existing file inside ''
                                      @ node_path (nodes st ! r))), st3)
                             else if targetType = FolderT then (Inr target, st3)
                             else async_mkdir_self strict target st3))))"

text \<open>
  \<open>overwrite(data)\<close> of the TypeScript source, \<open>nested(sufix)\<close> and \<open>inside(name)\<close>
  (which answers \<open>null\<close>, \<open>None\<close>, under a file).
\<close>

definition async_overwrite ::
  "bool \<Rightarrow> nat \<Rightarrow> string \<Rightarrow> async_state \<Rightarrow> (js_error + bool) \<times> async_state" where
  "async_overwrite strict r buffer st =
     (case async_exists r st of
        (True, st1) \<Rightarrow> async_write strict r buffer True st1
      | (False, st1) \<Rightarrow>
          (Inl (JsError None (''Rewrite target does not exist at '' @ node_path (nodes st ! r))),
           st1))"

definition async_nested :: "nat \<Rightarrow> string \<Rightarrow> async_state \<Rightarrow> nat \<times> async_state" where
  "async_nested r sufix st = fromCache (node_path (nodes st ! r) @ ''/'' @ sufix) st"

definition async_inside ::
  "bool \<Rightarrow> nat \<Rightarrow> string \<Rightarrow> async_state \<Rightarrow> (js_error + nat option) \<times> async_state" where
  "async_inside strict r name st =
     (case async_type r st of
        (t, st1) \<Rightarrow>
          if t = FileT then
            (if strict
             then (Inl (JsError None (''Cannot target child inside existing file at ''
                                      @ node_path (nodes st ! r))), st1)
             else (Inr None, st1))
          else (case fromCache (node_path (nodes st1 ! r) @ ''/'' @ name) st1 of
                  (c, st2) \<Rightarrow> (Inr (Some c), st2)))"

text \<open>The calls a process can make on the asynchronous variant, and a run of them.\<close>

datatype async_call =
    CallAsyncFs "jsval list"
  | CallFromCache string
  | CallStat nat
  | CallType nat
  | CallExists nat
  | CallParent nat
  | CallSiblings nat
  | CallChildren nat
  | CallFiles nat
  | CallFolders nat
  | CallData nat
  | CallWrite nat string bool
  | CallAppend nat string bool
  | CallOverwrite nat string
  | CallMkdir nat "string option"
  | CallNested nat string
  | CallInside nat string

fun run_call :: "bool \<Rightarrow> async_call \<Rightarrow> async_state \<Rightarrow> async_state" where
  "run_call strict (CallAsyncFs args) st = snd (asyncFs args st)"
| "run_call strict (CallFromCache p) st = snd (fromCache p st)"
| "run_call strict (CallStat r) st = snd (async_stat r st)"
| "run_call strict (CallType r) st = snd (async_type r st)"
| "run_call strict (CallExists r) st = snd (async_exists r st)"
| "run_call strict (CallParent r) st = snd (async_parent r st)"
| "run_call strict (CallSiblings r) st = snd (async_siblings strict r st)"
| "run_call strict (CallChildren r) st = snd (async_children strict r None st)"
| "run_call strict (CallFiles r) st = snd (async_children strict r (Some file_filter) st)"
| "run_call strict (CallFolders r) st = snd (async_children strict r (Some folder_filter) st)"
| "run_call strict (CallData r) st = snd (async_data strict r st)"
| "run_call strict (CallWrite r b overwrite) st = snd (async_write strict r b overwrite st)"
| "run_call strict (CallAppend r b mustExist) st = snd (async_append strict r b mustExist st)"
| "run_call strict (CallOverwrite r b) st = snd (async_overwrite strict r b st)"
| "run_call strict (CallMkdir r name) st = snd (async_mkdir strict r name st)"
| "run_call strict (CallNested r sufix) st = snd (async_nested r sufix st)"
| "run_call strict (CallInside r name) st = snd (async_inside strict r name st)"

section \<open>The synchronous variant (\<open>fromFs\<close>, \<open>createFsObj\<close>)\<close>

text \<open>
  An object of the synchronous variant has its path and the three fields of its private
  \<open>_hidden\<close> record; \<open>undefined\<close> and \<open>null\<close> are both \<open>NoCache\<close>. The objects live in
  a heap, the module's \<open>cache\<close> maps a path to a reference. The clock is what
  \<open>new Date().getTime()\<close> returns; it does not advance while one method runs.
  A method is a function from the state to a result, or a thrown error, and the new
  state. Arguments are strings: other argument shapes of \<open>fsPath\<close> are not modelled.
  The module's \<open>cache\<close> is a plain object: for a key that is the name of a member every
  object inherits (\<open>constructor\<close>, \<open>toString\<close>, ...) the source returns that member
  and creates nothing. Such keys are outside this model.
\<close>

record sync_obj =
  obj_path :: string
  hidden_stat :: "stats cached"
  hidden_children :: "nat list cached"
  hidden_data :: "string cached"

record sync_state =
  disk :: os
  objs :: "sync_obj list"
  cache :: "string \<rightharpoonup> nat"
  clock :: int

type_synonym 'a sync = "sync_state \<Rightarrow> (js_error + 'a) \<times> sync_state"

definition sreturn :: "'a \<Rightarrow> 'a sync" where
  "sreturn x st = (Inr x, st)"

definition sthrow :: "js_error \<Rightarrow> 'a sync" where
  "sthrow e st = (Inl e, st)"

definition sbind :: "'a sync \<Rightarrow> ('a \<Rightarrow> 'b sync) \<Rightarrow> 'b sync" where
  "sbind m f st = (case m st of (Inl e, st1) \<Rightarrow> (Inl e, st1) | (Inr x, st1) \<Rightarrow> f x st1)"

definition slift :: "(sync_state \<Rightarrow> 'a \<times> sync_state) \<Rightarrow> 'a sync" where
  "slift m st = (case m st of (x, st1) \<Rightarrow> (Inr x, st1))"

definition is_space :: "char \<Rightarrow> bool" where
  "is_space c = (c = CHR '' '' \<or> c = CHR 0x09 \<or> c = CHR 0x0A \<or> c = CHR 0x0B
                 \<or> c = CHR 0x0C \<or> c = CHR 0x0D)"

definition trim :: "string \<Rightarrow> string" where
  "trim s = rev (dropWhile is_space (rev (dropWhile is_space s)))"

fun str_includes :: "string \<Rightarrow> string \<Rightarrow> bool" where
  "str_includes [] t = (t = [])"
| "str_includes (c # cs) t = (startsWith (c # cs) t \<or> str_includes cs t)"

definition fsPath :: "string list \<Rightarrow> string" where
  "fsPath args =
     (let p = remove_question
                (collapse_slashes (replace_backslash (join_with ''/'' (map trim args))));
          p = strip_trailing_slash p
      in if p = ''.'' \<or> p = ''./'' \<or> p = ''./.'' then ''.''
         else
           (let p = (if startsWith p ''//'' then drop 1 p else p);
                p = (if startsWith p ''./'' then drop 2 p else p)
            in p))"

definition createFsObj :: "string \<Rightarrow> js_error + sync_obj" where
  "createFsObj p =
     (if p = [] then Inl (JsError None ''Invalid parameter'')
      else if str_includes p ''/undefined'' \<or> str_includes p ''/null''
              \<or> str_includes p ''/NaN'' \<or> str_includes p ''undefined/''
              \<or> str_includes p ''null/'' \<or> str_includes p ''NaN/''
      then Inl (JsError None ''Detected malformed path'')
      else Inr \<lparr>obj_path = fsPath [p], hidden_stat = NoCache, hidden_children = NoCache,
                hidden_data = NoCache\<rparr>)"

definition fromFs :: "string list \<Rightarrow> nat sync" where
  "fromFs args st =
     (let p = fsPath args in
      if p = [] \<or> trim p = [] \<or> CHR 0x22 \<in> set p \<or> CHR ''<'' \<in> set p
         \<or> CHR ''>'' \<in> set p \<or> CHR ''*'' \<in> set p
      then (Inl (JsError None (''Invalid path: '' @ p)), st)
      else
        (case cache st p of
           Some r \<Rightarrow> (Inr r, st)
         | None \<Rightarrow>
             (case createFsObj p of
                Inl e \<Rightarrow> (Inl e, st)
              | Inr obj \<Rightarrow>
                  (Inr (length (objs st)),
                   st\<lparr>objs := objs st @ [obj], cache := (cache st)(p \<mapsto> length (objs st))\<rparr>))))"

text \<open>
  \<open>getCachedStat(maxAge)\<close> returns \<open>null\<close> (\<open>None\<close>), a \<open>Stats\<close> object or an
  \<open>Error\<close> object other than \<open>ENOENT\<close>, and stores the entry unless it returns \<open>null\<close>.
\<close>

definition stat_generator :: "string \<Rightarrow> sync_state \<Rightarrow> (js_error + stats produced) \<times> sync_state" where
  "stat_generator p st = (map_sum id Value (os_stat (disk st) p), st)"

definition is_ENOENT :: "js_error + 'a \<Rightarrow> bool" where
  "is_ENOENT d = (case d of Inl e \<Rightarrow> code e = Some ''ENOENT'' | Inr v \<Rightarrow> False)"

definition getCachedStat ::
  "int \<Rightarrow> nat \<Rightarrow> sync_state \<Rightarrow> (js_error + stats) option \<times> sync_state" where
  "getCachedStat maxAge r st =
     (case cacheOrGenerate (hidden_stat (objs st ! r)) (stat_generator (obj_path (objs st ! r)))
             maxAge (clock st) st of
        (Entry d t, st1) \<Rightarrow>
          if is_ENOENT d then (None, st1)
          else (Some d, st1\<lparr>objs := (objs st1)[r := (objs st1 ! r)\<lparr>hidden_stat := Entry d t\<rparr>]\<rparr>)
      | (c, st1) \<Rightarrow> (None, st1))"

definition sync_type :: "nat \<Rightarrow> sync_state \<Rightarrow> ftype \<times> sync_state" where
  "sync_type r st =
     (case getCachedStat 100 r st of
        (Some (Inr s), st1) \<Rightarrow> (if isFile s then FileT else FolderT, st1)
      | (d, st1) \<Rightarrow> (UnknownT, st1))"

text \<open>
  \<open>obj.size\<close> is \<open>getCachedStat(100).size\<close>: a \<open>TypeError\<close> on \<open>null\<close>, \<open>undefined\<close>
  (\<open>None\<close>) on an \<open>Error\<close> object.
\<close>

definition sync_size :: "nat \<Rightarrow> nat option sync" where
  "sync_size r st =
     (case getCachedStat 100 r st of
        (None, st1) \<Rightarrow> (Inl (JsError None ''TypeError: Cannot read properties of null''), st1)
      | (Some (Inl e), st1) \<Rightarrow> (Inr None, st1)
      | (Some (Inr s), st1) \<Rightarrow> (Inr (Some (st_size s)), st1))"

definition sync_parent :: "nat \<Rightarrow> nat sync" where
  "sync_parent r st =
     (let l = split_on CHR ''/'' (obj_path (objs st ! r));
          j = join_with ''/'' (take (length l - 1) l)
      in fromFs [if j = [] then ''/'' else j] st)"

definition mkdirSync :: "string \<Rightarrow> unit sync" where
  "mkdirSync p st =
     (case os_mkdir (disk st) p of
        Inl e \<Rightarrow> (Inl e, st)
      | Inr w \<Rightarrow> (Inr (), st\<lparr>disk := w\<rparr>))"

definition writeFileSync :: "string \<Rightarrow> string \<Rightarrow> unit sync" where
  "writeFileSync p b st =
     (case os_writeFile (disk st) p b of
        Inl e \<Rightarrow> (Inl e, st)
      | Inr w \<Rightarrow> (Inr (), st\<lparr>disk := w\<rparr>))"

definition appendFileSync :: "string \<Rightarrow> string \<Rightarrow> unit sync" where
  "appendFileSync p b st =
     (case os_appendFile (disk st) p b of
        Inl e \<Rightarrow> (Inl e, st)
      | Inr w \<Rightarrow> (Inr (), st\<lparr>disk := w\<rparr>))"

definition path_of :: "nat \<Rightarrow> string sync" where
  "path_of r st = (Inr (obj_path (objs st ! r)), st)"

definition parent_parent :: "nat \<Rightarrow> nat sync" where
  "parent_parent r = sbind (sync_parent r) sync_parent"

definition parent_type :: "nat \<Rightarrow> ftype sync" where
  "parent_type r = sbind (sync_parent r) (\<lambda>p. slift (sync_type p))"

definition mkdir_parent_parent :: "nat \<Rightarrow> unit sync" where
  "mkdir_parent_parent r = sbind (parent_parent r) (\<lambda>pp. sbind (path_of pp) mkdirSync)"

text \<open>
  The result of a write: \<open>size\<close> is a number, or \<open>NaN\<close> (\<open>None\<close>) when \<open>obj.size\<close> was
  \<open>undefined\<close>.
\<close>

record write_result =
  wsize :: "nat option"
  wbuffer :: string

definition truthy_size :: "nat option \<Rightarrow> bool" where
  "truthy_size s = (case s of None \<Rightarrow> False | Some n \<Rightarrow> n \<noteq> 0)"

definition writeToFsObj :: "nat \<Rightarrow> bool \<Rightarrow> string \<Rightarrow> bool \<Rightarrow> write_result sync" where
  "writeToFsObj r isAppend v overwrite =
     sbind (slift (sync_type r)) (\<lambda>t0.
     sbind (parent_type r) (\<lambda>pt.
     sbind
       (if pt = UnknownT then
          sbind (sbind (parent_parent r) (\<lambda>pp. slift (sync_type pp))) (\<lambda>ppt.
          sbind (if ppt = UnknownT
                 then sbind (parent_parent r) (\<lambda>pp. mkdir_parent_parent r)
                 else sreturn ()) (\<lambda>u.
          sbind (parent_type r) (\<lambda>pt2.
            if pt2 = UnknownT then mkdir_parent_parent r else sreturn ())))
        else
          sbind (parent_type r) (\<lambda>pt3.
            if pt3 \<noteq> FolderT
            then sbind (path_of r) (\<lambda>p. sthrow (JsError None (''Invalid file parent type of '' @ p)))
            else sreturn ())) (\<lambda>u.
     sbind (slift (sync_type r)) (\<lambda>t.
     sbind (if t = FileT
            then sbind (sync_size r) (\<lambda>sz.
                   sreturn ((case sz of None \<Rightarrow> False | Some n \<Rightarrow> n > 0) \<and> \<not> overwrite \<and> \<not> isAppend))
            else sreturn False) (\<lambda>conflict.
       if conflict then
         sbind (path_of r) (\<lambda>p.
           sthrow (JsError None (''Write target already exists (overwrite disabled) at '' @ p)))
       else
         sbind (path_of r) (\<lambda>p.
         sbind (if isAppend then appendFileSync p v else writeFileSync p v) (\<lambda>u2.
         sbind (if isAppend then sync_size r else sreturn (Some 0)) (\<lambda>sz.
           sreturn \<lparr>wsize = map_option (\<lambda>n. n + length v) sz, wbuffer = v\<rparr>))))))))"

definition set_hidden_data :: "nat \<Rightarrow> string cached \<Rightarrow> unit sync" where
  "set_hidden_data r c st = (Inr (), st\<lparr>objs := (objs st)[r := (objs st ! r)\<lparr>hidden_data := c\<rparr>]\<rparr>)"

definition set_hidden_stat :: "nat \<Rightarrow> stats cached \<Rightarrow> unit sync" where
  "set_hidden_stat r c st = (Inr (), st\<lparr>objs := (objs st)[r := (objs st ! r)\<lparr>hidden_stat := c\<rparr>]\<rparr>)"

definition set_hidden_children :: "nat \<Rightarrow> nat list cached \<Rightarrow> unit sync" where
  "set_hidden_children r c st =
     (Inr (), st\<lparr>objs := (objs st)[r := (objs st ! r)\<lparr>hidden_children := c\<rparr>]\<rparr>)"

definition writeFunc :: "nat \<Rightarrow> string \<Rightarrow> bool \<Rightarrow> write_result sync" where
  "writeFunc r v overwrite =
     sbind (slift (getCachedStat 100 r)) (\<lambda>s.
     sbind (set_hidden_data r NoCache) (\<lambda>u.
     sbind (writeToFsObj r False v overwrite) (\<lambda>res.
     sbind (if truthy_size (wsize res)
            then sbind (set_hidden_data r NoCache) (\<lambda>u. set_hidden_stat r NoCache)
            else sreturn ()) (\<lambda>u2.
     sreturn res))))"

definition appendFunc :: "nat \<Rightarrow> string \<Rightarrow> bool \<Rightarrow> write_result sync" where
  "appendFunc r v overwrite =
     sbind (slift (getCachedStat 100 r)) (\<lambda>s.
     sbind (writeToFsObj r True v overwrite) (\<lambda>res.
     sbind (if truthy_size (wsize res)
            then sbind (set_hidden_data r NoCache) (\<lambda>u. set_hidden_stat r NoCache)
            else sreturn ()) (\<lambda>u2.
     sreturn res)))"

text \<open>\<open>create()\<close> makes the directory of the object itself; \<open>mkdir(name)\<close> makes a child.\<close>

definition type_name :: "ftype \<Rightarrow> string" where
  "type_name t = (case t of FileT \<Rightarrow> ''file'' | FolderT \<Rightarrow> ''folder'' | UnknownT \<Rightarrow> ''unknown'')"

definition throw_wrong_type :: "nat \<Rightarrow> 'a sync" where
  "throw_wrong_type r =
     sbind (slift (sync_type r)) (\<lambda>t.
       sthrow (JsError None (''Create method called on node of type '' @ type_name t)))"

definition createFunc :: "nat \<Rightarrow> nat sync" where
  "createFunc r =
     sbind (slift (sync_type r)) (\<lambda>t.
       if t = FolderT then sreturn r
       else
         sbind (slift (sync_type r)) (\<lambda>t2.
           if t2 \<noteq> UnknownT
           then throw_wrong_type r
           else
             sbind (path_of r) (\<lambda>p.
             sbind (mkdirSync p) (\<lambda>u.
             sbind (set_hidden_stat r NoCache) (\<lambda>u1.
             sbind (set_hidden_children r NoCache) (\<lambda>u2.
             sbind (set_hidden_data r NoCache) (\<lambda>u3.
             sreturn r)))))))"

definition mkdirFunc :: "nat \<Rightarrow> string \<Rightarrow> nat sync" where
  "mkdirFunc r name =
     (if name = [] \<or> CHR ''/'' \<in> set name \<or> CHR ''<'' \<in> set name
      then sthrow (JsError None
             ''Mkdir method does receive 1 string argument: The name of the folder to create'')
      else
        sbind (slift (sync_type r)) (\<lambda>t.
          if t \<noteq> FolderT
          then throw_wrong_type r
          else
            sbind (path_of r) (\<lambda>p.
            sbind (mkdirSync (p @ ''/'' @ name)) (\<lambda>u.
            sbind (set_hidden_children r NoCache) (\<lambda>u1.
            sbind (path_of r) (\<lambda>p1. fromFs [p1, name]))))))"

text \<open>
  \<open>read()\<close> returns \<open>null\<close> (\<open>None\<close>), the bytes, or an \<open>Error\<close> object that the
  cache recorded. The \<open>children\<close> getter returns the list of the children's references,
  or an \<open>Error\<close> object that the cache recorded.
\<close>

definition read_generator ::
  "string \<Rightarrow> sync_state \<Rightarrow> (js_error + string produced) \<times> sync_state" where
  "read_generator p st = (map_sum id Value (os_readFile (disk st) p), st)"

definition readFunc :: "nat \<Rightarrow> (js_error + string) option sync" where
  "readFunc r =
     sbind (slift (getCachedStat 33 r)) (\<lambda>s.
       case s of
         None \<Rightarrow>
           sthrow (JsError None ''Invalid fs object target to read method: (not found)'')
       | Some (Inl e) \<Rightarrow> sthrow (JsError None ''TypeError: s.isDirectory is not a function'')
       | Some (Inr stats) \<Rightarrow>
           if isDirectory stats
           then sthrow (JsError None ''Invalid fs object target to read method: (folder)'')
           else
             (\<lambda>st. case cacheOrGenerate (hidden_data (objs st ! r))
                          (read_generator (obj_path (objs st ! r))) 100 (clock st) st of
                     (Entry d t, st1) \<Rightarrow>
                       if is_ENOENT d then (Inr None, st1)
                       else (Inr (Some d),
                             st1\<lparr>objs := (objs st1)[r := (objs st1 ! r)\<lparr>hidden_data := Entry d t\<rparr>]\<rparr>)
                   | (c, st1) \<Rightarrow> (Inr None, st1)))"

fun map_fromFs :: "string \<Rightarrow> string list \<Rightarrow> nat list sync" where
  "map_fromFs p [] = sreturn []"
| "map_fromFs p (n # ns) =
     sbind (fromFs [p, n]) (\<lambda>r. sbind (map_fromFs p ns) (\<lambda>rs. sreturn (r # rs)))"

definition children_generator ::
  "string \<Rightarrow> sync_state \<Rightarrow> (js_error + nat list produced) \<times> sync_state" where
  "children_generator p st =
     (case os_readdir (disk st) p of
        Inl e \<Rightarrow> (Inl (JsError None ''Invalid list result''), st)
      | Inr names \<Rightarrow>
          (case map_fromFs p names st of
             (Inl e, st1) \<Rightarrow> (Inl e, st1)
           | (Inr rs, st1) \<Rightarrow> (Inr (Value rs), st1)))"

definition sync_children :: "nat \<Rightarrow> (js_error + nat list) sync" where
  "sync_children r =
     sbind (slift (getCachedStat 33 r)) (\<lambda>s.
       case s of
         None \<Rightarrow>
           sthrow (JsError None ''Invalid fs object stat type to children method: falsy'')
       | Some (Inl e) \<Rightarrow>
           sthrow (JsError None
                    (''Invalid fs object stat type to children method: '' @ message e))
       | Some (Inr stats) \<Rightarrow>
           if \<not> isDirectory stats
           then sbind (path_of r) (\<lambda>p.
                  sthrow (JsError None (''Cannot read children of file at '' @ p)))
           else
             (\<lambda>st. case cacheOrGenerate (hidden_children (objs st ! r))
                          (children_generator (obj_path (objs st ! r))) 100 (clock st) st of
                     (Entry d t, st1) \<Rightarrow>
                       if is_ENOENT d then (Inr (Inr []), st1)
                       else (Inr d,
                             st1\<lparr>objs := (objs st1)[r := (objs st1 ! r)\<lparr>hidden_children := Entry d t\<rparr>]\<rparr>)
                   | (c, st1) \<Rightarrow> (Inr (Inr []), st1)))"

section \<open>Vocabulary of the properties and concrete inputs\<close>


text \<open>The action of the repository's test: it fails with \<open>ENOENT\<close> once, then succeeds.\<close>

definition flaky :: "nat \<Rightarrow> (thrown + string) \<times> nat" where
  "flaky c =
     (if c = 0 then (Inl (Thrown (JsError (Some ''ENOENT'') ''gone'')), Suc c)
      else (Inr ''Success'', Suc c))"

text \<open>An action that throws \<open>null\<close>, and a generator that throws.\<close>

definition throws_null :: "unit \<Rightarrow> (thrown + string) \<times> unit" where
  "throws_null u = (Inl ThrownNull, u)"

definition failing_generator :: "unit \<Rightarrow> (js_error + string produced) \<times> unit" where
  "failing_generator u = (Inl (JsError (Some ''EIO'') ''i/o error''), u)"

definition fresh_string :: "unit \<Rightarrow> (js_error + string produced) \<times> unit" where
  "fresh_string u = (Inr (Value ''fresh''), u)"

text \<open>
  A small machine: the working directory is \<open>/home/user\<close>; it holds the file \<open>f.txt\<close>;
  the directory \<open>/tmp/x\<close> holds the file \<open>a\<close>.
\<close>

definition w0 :: os where
  "w0 = \<lparr>cwd = ''/home/user'',
          files = [(''/home'', Dir), (''/home/user'', Dir), (''/home/user/f.txt'', File ''old''),
                   (''/tmp'', Dir), (''/tmp/x'', Dir), (''/tmp/x/a'', File ''A'')]\<rparr>"

definition st0 :: async_state where
  "st0 = \<lparr>os = w0, nodes = [], instanceCacheRecord = Map.empty\<rparr>"

text \<open>
  The object cache is consistent when every stored reference points to a node of that
  path and every node is stored under its own path.
\<close>

definition cache_wf :: "async_state \<Rightarrow> bool" where
  "cache_wf st =
     ((\<forall>p r. instanceCacheRecord st p = Some r \<longrightarrow>
              r < length (nodes st) \<and> node_path (nodes st ! r) = p) \<and>
      (\<forall>r < length (nodes st). instanceCacheRecord st (node_path (nodes st ! r)) = Some r))"

text \<open>
  What the consistency of the object cache depends on: the paths of the nodes, in heap
  order, and the cache itself.
\<close>

definition shape :: "async_state \<Rightarrow> string list \<times> (string \<rightharpoonup> nat)" where
  "shape st = (map node_path (nodes st), instanceCacheRecord st)"

definition shape_wf :: "string list \<times> (string \<rightharpoonup> nat) \<Rightarrow> bool" where
  "shape_wf sh =
     ((\<forall>p r. snd sh p = Some r \<longrightarrow> r < length (fst sh) \<and> fst sh ! r = p) \<and>
      (\<forall>r < length (fst sh). snd sh (fst sh ! r) = Some r))"

definition sinv :: "string \<Rightarrow> nat \<Rightarrow> string list \<times> (string \<rightharpoonup> nat) \<Rightarrow> bool" where
  "sinv p r sh = (shape_wf sh \<and> snd sh p = Some r)"

definition calls0 :: "async_call list" where
  "calls0 = [CallStat 0, CallFromCache ''/tmp/x'', CallChildren 1, CallWrite 0 ''new'' True,
             CallMkdir 1 (Some ''sub''), CallSiblings 0]"

text \<open>
  A method keeps the object \<open>r\<close> when it leaves \<open>r\<close> in the heap with its cached
  children and cached data as they were.
\<close>

definition keeps :: "nat \<Rightarrow> 'a sync \<Rightarrow> bool" where
  "keeps r m =
     (\<forall>st. r < length (objs st) \<longrightarrow>
           r < length (objs (snd (m st))) \<and>
           hidden_children (objs (snd (m st)) ! r) = hidden_children (objs st ! r) \<and>
           hidden_data (objs (snd (m st)) ! r) = hidden_data (objs st ! r))"

text \<open>The synchronous variant on the small machine, at time 1000.\<close>

definition ss0 :: sync_state where
  "ss0 = \<lparr>disk = w0, objs = [], cache = Map.empty, clock = 1000\<rparr>"

text \<open>
  States of the synchronous variant on the small machine: after \<open>f.txt\<close> was read, and after
  the children of \<open>/tmp/x\<close> were listed. A node is fully invalidated when none of its
  three cached attributes is left.
\<close>

definition ss_read :: sync_state where
  "ss_read = snd (readFunc 0 (snd (fromFs [''/home/user/f.txt''] ss0)))"

definition ss_listed :: sync_state where
  "ss_listed = snd (sync_children 0 (snd (fromFs [''/tmp/x''] ss0)))"

definition fully_invalidated :: "sync_obj \<Rightarrow> bool" where
  "fully_invalidated obj =
     (hidden_stat obj = NoCache \<and> hidden_children obj = NoCache \<and> hidden_data obj = NoCache)"




section \<open>Properties\<close>

lemma attempt_loop_unroll:
  "attempt_loop func 0 fallback None s =
     (case func s of
        (Inr v, s1) \<Rightarrow> (Inr \<lparr>data = v, error = None\<rparr>, s1)
      | (Inl ThrownNull, s1) \<Rightarrow>
          (Inl (JsError None ''TypeError: Cannot read properties of null (reading code)''), s1)
      | (Inl ThrownUndefined, s1) \<Rightarrow>
          (Inl (JsError None ''TypeError: Cannot read properties of undefined (reading code)''),
           s1)
      | (Inl (Thrown e), s1) \<Rightarrow>
          if \<not> transient e then (Inr \<lparr>data = fallback, error = Some e\<rparr>, s1)
          else (case func s1 of
                  (Inr v, s2) \<Rightarrow> (Inr \<lparr>data = v, error = None\<rparr>, s2)
                | (Inl ThrownNull, s2) \<Rightarrow>
                    (Inl (JsError None
                            ''TypeError: Cannot read properties of null (reading code)''), s2)
                | (Inl ThrownUndefined, s2) \<Rightarrow>
                    (Inl (JsError None
                            ''TypeError: Cannot read properties of undefined (reading code)''),
                     s2)
                | (Inl (Thrown e2), s2) \<Rightarrow> (Inr \<lparr>data = fallback, error = Some e2\<rparr>, s2)))"
  by (auto simp: transient_def split: prod.splits sum.splits thrown.splits)

lemma attempt_os_unroll:
  "attempt_os fb func st =
     (case func (os st) of
        (Inr v, x1) \<Rightarrow> (\<lparr>data = v, error = None\<rparr>, st\<lparr>os := x1\<rparr>)
      | (Inl e, x1) \<Rightarrow>
          if \<not> transient e then (\<lparr>data = fb, error = Some e\<rparr>, st\<lparr>os := x1\<rparr>)
          else (case func x1 of
                  (Inr v, x2) \<Rightarrow> (\<lparr>data = v, error = None\<rparr>, st\<lparr>os := x2\<rparr>)
                | (Inl e2, x2) \<Rightarrow> (\<lparr>data = fb, error = Some e2\<rparr>, st\<lparr>os := x2\<rparr>)))"
  unfolding attempt_os_def attemptFileOperation_def attempt_loop_unroll
  by (auto simp: rejecting_def split: prod.splits sum.splits)

lemma attempt_rejecting_unroll:
  "attemptFileOperation fb (rejecting func) s =
     (case func s of
        (Inr v, x1) \<Rightarrow> (Inr \<lparr>data = v, error = None\<rparr>, x1)
      | (Inl e, x1) \<Rightarrow>
          if \<not> transient e then (Inr \<lparr>data = fb, error = Some e\<rparr>, x1)
          else (case func x1 of
                  (Inr v, x2) \<Rightarrow> (Inr \<lparr>data = v, error = None\<rparr>, x2)
                | (Inl e2, x2) \<Rightarrow> (Inr \<lparr>data = fb, error = Some e2\<rparr>, x2)))"
  unfolding attemptFileOperation_def attempt_loop_unroll
  by (auto simp: rejecting_def split: prod.splits sum.splits)

lemma attempt_rejecting_returns:
  "\<exists>res. fst (attemptFileOperation fb (rejecting func) s) = Inr res"
  unfolding attempt_rejecting_unroll
  by (simp split: prod.splits sum.splits)

subsection \<open>The retrying operation\<close>

text \<open>
  What \<open>attemptFileOperation\<close> does with an action that throws values whose \<open>code\<close>
  can be read: it runs the action once or twice. If the first run succeeds, the result is
  its value with no error after one invocation. If the first run fails with a code other
  than \<open>ENOENT\<close> and \<open>EBUSY\<close>, the result is the fallback with that error after one
  invocation. If the first run fails with a transient code and the second succeeds, the
  result is the second value with no error after two invocations. If both runs fail, the
  result is the fallback with the last error after two invocations.
\<close>

lemma attemptFileOperation_results:
  fixes func :: "'s \<Rightarrow> (thrown + 'a) \<times> 's"
  shows
  "(case attemptFileOperation fb (counting func) (0, s) of
      (res, (n, s')) \<Rightarrow>
        1 \<le> n \<and> n \<le> 2 \<and>
        (\<forall>v s1. func s = (Inr v, s1) \<longrightarrow>
           res = Inr \<lparr>data = v, error = None\<rparr> \<and> n = 1 \<and> s' = s1) \<and>
        (\<forall>e s1. func s = (Inl (Thrown e), s1) \<and> \<not> transient e \<longrightarrow>
           res = Inr \<lparr>data = fb, error = Some e\<rparr> \<and> n = 1 \<and> s' = s1) \<and>
        (\<forall>e s1 v s2. func s = (Inl (Thrown e), s1) \<and> transient e \<and> func s1 = (Inr v, s2) \<longrightarrow>
           res = Inr \<lparr>data = v, error = None\<rparr> \<and> n = 2 \<and> s' = s2) \<and>
        (\<forall>e s1 e2 s2. func s = (Inl (Thrown e), s1) \<and> transient e
            \<and> func s1 = (Inl (Thrown e2), s2) \<longrightarrow>
           res = Inr \<lparr>data = fb, error = Some e2\<rparr> \<and> n = 2 \<and> s' = s2))"
  unfolding attemptFileOperation_def attempt_loop_unroll
  by (auto simp: counting_def split: prod.splits sum.splits thrown.splits)

lemma attemptFileOperation_flaky:
  "attemptFileOperation ''fallback'' (counting flaky) (0, 0)
     = (Inr \<lparr>data = ''Success'', error = None\<rparr>, (2, 2))"
  unfolding attemptFileOperation_def attempt_loop_unroll
  by (simp add: counting_def flaky_def transient_def)

text \<open>
  Claim C4 at a failing input: the action throws \<open>null\<close>. The catch block of
  \<open>attemptFileOperation\<close> reads \<open>err.code\<close>, and the operation itself raises a
  \<open>TypeError\<close> after one invocation: it returns no pair of data and error.
\<close>

theorem attemptFileOperation_throw_null_raises:
  "attemptFileOperation ''fallback'' (counting throws_null) (0, ())
     = (Inl (JsError None ''TypeError: Cannot read properties of null (reading code)''),
        (1, ()))"
  unfolding attemptFileOperation_def attempt_loop_unroll
  by (simp add: counting_def throws_null_def)

subsection \<open>The TTL cache\<close>

text \<open>
  Claim C8, as stated, fails: a previous entry that records a captured error and is still
  fresh is served as it is, and the generator is not invoked (the counter stays at 0).
\<close>

theorem cacheOrGenerate_error_entry_counterexample:
  "cacheOrGenerate (Entry (Inl (JsError (Some ''EACCES'') ''denied'')) 1000)
       (counting fresh_string) 100 1050 (0, ())
     = (Entry (Inl (JsError (Some ''EACCES'') ''denied'')) 1000, (0, ()))"
  by (simp add: cacheOrGenerate_def)

text \<open>
  Claim C8, amended. \<open>cacheOrGenerate\<close> invokes the generator, once, exactly when there
  is no previous entry, the previous object is itself an \<open>Error\<close>, the previous entry is
  stamped zero, the maximal age is negative, or the entry has expired
  (\<open>now - time \<ge> maxAge\<close>). It then returns a new entry stamped with the current time
  that holds the value the generator returned, or the error it threw, or, when the
  generator returned a promise, the error "Unmplemented generate response". Otherwise it
  does not invoke the generator and returns the previous entry unchanged, whether that
  entry holds a value or a captured error.
\<close>

theorem cacheOrGenerate_stale_iff:
  fixes generate :: "'s \<Rightarrow> (js_error + 'a produced) \<times> 's"
  shows
  "(case cacheOrGenerate prev (counting generate) maxAge now (n, s) of
      (entry, (n', s')) \<Rightarrow>
        (n' = Suc n \<longleftrightarrow>
           prev = NoCache \<or> (\<exists>e. prev = ErrorObj e) \<or>
           (\<exists>d t. prev = Entry d t \<and> (t = 0 \<or> maxAge < 0 \<or> now - t \<ge> maxAge))) \<and>
        (n' = n \<longleftrightarrow> (\<exists>d t. prev = Entry d t \<and> t \<noteq> 0 \<and> 0 \<le> maxAge \<and> now - t < maxAge)) \<and>
        (n' = Suc n \<longrightarrow>
           (\<forall>v s1. generate s = (Inr (Value v), s1) \<longrightarrow> entry = Entry (Inr v) now \<and> s' = s1) \<and>
           (\<forall>e s1. generate s = (Inl e, s1) \<longrightarrow> entry = Entry (Inl e) now \<and> s' = s1) \<and>
           (\<forall>s1. generate s = (Inr PromiseObj, s1) \<longrightarrow>
              entry = Entry (Inl (JsError None ''Unmplemented generate response'')) now \<and>
              s' = s1)) \<and>
        (n' = n \<longrightarrow> entry = prev \<and> s' = s))"
  by (cases prev)
     (auto simp: cacheOrGenerate_def run_generate_def counting_def
           split: prod.splits sum.splits produced.splits)

theorem cacheOrGenerate_stale_iff_witness:
  "cacheOrGenerate (Entry (Inr ''old'') 1000) (counting fresh_string) 100 1100 (0, ())
     = (Entry (Inr ''fresh'') 1100, (1, ())) \<and>
   cacheOrGenerate (Entry (Inr ''old'') 1000) (counting failing_generator) 100 1100 (0, ())
     = (Entry (Inl (JsError (Some ''EIO'') ''i/o error'')) 1100, (1, ())) \<and>
   cacheOrGenerate (Entry (Inr ''old'') 1000) (counting fresh_string) 100 1099 (0, ())
     = (Entry (Inr ''old'') 1000, (0, ()))"
  using cacheOrGenerate_stale_iff [where prev = "Entry (Inr ''old'') 1000"
          and generate = fresh_string and maxAge = 100 and now = 1100 and n = 0 and s = "()"]
        cacheOrGenerate_stale_iff [where prev = "Entry (Inr ''old'') 1000"
          and generate = failing_generator and maxAge = 100 and now = 1100 and n = 0
          and s = "()"]
        cacheOrGenerate_stale_iff [where prev = "Entry (Inr ''old'') 1000"
          and generate = fresh_string and maxAge = 100 and now = 1099 and n = 0 and s = "()"]
  by (auto simp: fresh_string_def failing_generator_def split: prod.splits)

subsection \<open>The object cache\<close>

lemma cache_wf_shape: "cache_wf st = shape_wf (shape st)"
  unfolding cache_wf_def shape_wf_def shape_def
  by (simp cong: conj_cong)

lemma map_update_same: "f y = f (xs ! r) \<Longrightarrow> map f (xs[r := y]) = map f xs"
  by (induction xs arbitrary: r) (auto simp: nth_Cons split: nat.splits)

lemma map_path_update:
  "map node_path (xs[r := (xs ! r)\<lparr>cachedStat := v\<rparr>]) = map node_path xs"
  "map node_path (xs[r := (xs ! r)\<lparr>node_parent := u\<rparr>]) = map node_path xs"
  by (simp_all add: map_update_same)

lemma shape_attempt_os [simp]: "shape (snd (attempt_os fb f st)) = shape st"
  by (simp add: attempt_os_def shape_def split_beta split: sum.splits)

lemma shape_cachedStat [simp]:
  "shape (st\<lparr>nodes := (nodes st)[r := (nodes st ! r)\<lparr>cachedStat := v\<rparr>]\<rparr>) = shape st"
  by (simp add: shape_def map_path_update)

lemma shape_async_stat [simp]: "shape (snd (async_stat r st)) = shape st"
  by (simp add: async_stat_def split_beta split: option.splits fs_value.splits)

lemma shape_async_type [simp]: "shape (snd (async_type r st)) = shape st"
  by (simp add: async_type_def split_beta split: option.splits)

lemma shape_async_file [simp]: "shape (snd (async_file r st)) = shape st"
  by (simp add: async_file_def split_beta)

lemma shape_async_folder [simp]: "shape (snd (async_folder r st)) = shape st"
  by (simp add: async_folder_def split_beta)

lemma shape_async_exists [simp]: "shape (snd (async_exists r st)) = shape st"
  by (simp add: async_exists_def split_beta)

lemma shape_async_write [simp]: "shape (snd (async_write strict r b ov st)) = shape st"
  by (simp add: async_write_def split_beta split: option.splits bool.splits)

lemma shape_async_append [simp]: "shape (snd (async_append strict r b ov st)) = shape st"
  by (simp add: async_append_def split_beta split: option.splits bool.splits)

lemma shape_async_data [simp]: "shape (snd (async_data strict r st)) = shape st"
  by (simp add: async_data_def split_beta split: option.splits fs_value.splits)

lemma sinv_shape: "sinv p r (shape st) = (cache_wf st \<and> instanceCacheRecord st p = Some r)"
  by (simp add: sinv_def cache_wf_shape shape_def)

lemma cache_wf_fromCache: "cache_wf st \<Longrightarrow> cache_wf (snd (fromCache q st))"
proof (cases "instanceCacheRecord st q")
  case None
  assume wf: "cache_wf st"
  have a: "\<And>p r. instanceCacheRecord st p = Some r \<Longrightarrow>
             r < length (nodes st) \<and> node_path (nodes st ! r) = p"
    using wf unfolding cache_wf_def by blast
  have b: "\<And>r. r < length (nodes st) \<Longrightarrow>
             instanceCacheRecord st (node_path (nodes st ! r)) = Some r"
    using wf unfolding cache_wf_def by blast
  have c: "\<And>r. r < length (nodes st) \<Longrightarrow> node_path (nodes st ! r) \<noteq> q"
    using b None by fastforce
  show ?thesis
    unfolding cache_wf_def fromCache_def
    using None a b c by (auto simp: nth_append less_Suc_eq)
next
  case (Some a)
  assume "cache_wf st"
  then show ?thesis using Some by (simp add: fromCache_def)
qed

lemma cache_fromCache_mono:
  "cache_wf st \<Longrightarrow> instanceCacheRecord st p = Some r \<Longrightarrow>
     instanceCacheRecord (snd (fromCache q st)) p = Some r"
  unfolding cache_wf_def fromCache_def
  by (cases "instanceCacheRecord st q") auto

lemma sinv_fromCache [simp]:
  "sinv p r (shape st) \<Longrightarrow> sinv p r (shape (snd (fromCache q st)))"
  by (simp add: sinv_shape cache_wf_fromCache cache_fromCache_mono)

lemma sinv_map_fromCache [simp]:
  "sinv p r (shape st) \<Longrightarrow> sinv p r (shape (snd (map_fromCache names st)))"
  by (induction names arbitrary: st) (simp_all add: split_beta)

lemma shape_filter_loop_file [simp]:
  "shape (snd (filter_loop file_filter list i xs acc st)) = shape st"
  by (induction xs arbitrary: i acc st) (simp_all add: file_filter_def split_beta)

lemma shape_filter_loop_folder [simp]:
  "shape (snd (filter_loop folder_filter list i xs acc st)) = shape st"
  by (induction xs arbitrary: i acc st) (simp_all add: folder_filter_def split_beta)

lemma sinv_async_children [simp]:
  assumes "sinv p r (shape st)"
  shows "sinv p r (shape (snd (async_children strict q None st)))"
    and "sinv p r (shape (snd (async_children strict q (Some file_filter) st)))"
    and "sinv p r (shape (snd (async_children strict q (Some folder_filter) st)))"
  using assms
  by (simp_all add: async_children_def split_beta
        del: filter_loop.simps map_fromCache.simps
        split: option.splits fs_value.splits list.splits)

lemma shape_node_parent [simp]:
  "shape (st\<lparr>nodes := (nodes st)[r := (nodes st ! r)\<lparr>node_parent := v\<rparr>]\<rparr>) = shape st"
  by (simp add: shape_def map_path_update)

lemma sinv_async_parent [simp]:
  "sinv p r (shape st) \<Longrightarrow> sinv p r (shape (snd (async_parent q st)))"
  by (simp add: async_parent_def Let_def split_beta split: option.splits)

lemma sinv_async_siblings [simp]:
  "sinv p r (shape st) \<Longrightarrow> sinv p r (shape (snd (async_siblings strict q st)))"
  by (simp add: async_siblings_def split_beta split: sum.splits)

lemma shape_async_overwrite [simp]: "shape (snd (async_overwrite strict r b st)) = shape st"
  by (simp add: async_overwrite_def split_beta split: bool.splits)

lemma shape_async_mkdir_self [simp]: "shape (snd (async_mkdir_self strict r st)) = shape st"
  by (simp add: async_mkdir_self_def split_beta split: option.splits)

lemma sinv_async_mkdir [simp]:
  "sinv p r (shape st) \<Longrightarrow> sinv p r (shape (snd (async_mkdir strict q name st)))"
  by (simp add: async_mkdir_def split_beta split: option.splits)

lemma sinv_async_nested [simp]:
  "sinv p r (shape st) \<Longrightarrow> sinv p r (shape (snd (async_nested q sufix st)))"
  by (simp add: async_nested_def)

lemma sinv_async_inside [simp]:
  "sinv p r (shape st) \<Longrightarrow> sinv p r (shape (snd (async_inside strict q name st)))"
  by (simp add: async_inside_def split_beta)

lemma sinv_run_call:
  "sinv p r (shape st) \<Longrightarrow> sinv p r (shape (run_call strict c st))"
  by (cases c) (simp_all add: asyncFs_def split_beta)

lemma sinv_run_calls:
  "sinv p r (shape st) \<Longrightarrow> sinv p r (shape (fold (run_call strict) calls st))"
  by (induction calls arbitrary: st) (simp_all add: sinv_run_call)

lemma cache_wf_distinct:
  "cache_wf st \<Longrightarrow> i < length (nodes st) \<Longrightarrow> j < length (nodes st) \<Longrightarrow>
     node_path (nodes st ! i) = node_path (nodes st ! j) \<Longrightarrow> i = j"
  unfolding cache_wf_def by (metis option.inject)

lemma fromCache_hit:
  "instanceCacheRecord st p = Some r \<Longrightarrow> fromCache p st = (r, st)"
  by (simp add: fromCache_def)

lemma fromFs_again:
  "fromFs args ss = (Inr r', ss1) \<Longrightarrow> fromFs args ss1 = (Inr r', ss1)"
  by (auto simp: fromFs_def Let_def split: if_splits option.splits sum.splits)

lemma fromCache_stores:
  "fromCache p st = (r, st1) \<Longrightarrow> instanceCacheRecord st1 p = Some r"
  by (auto simp: fromCache_def split: option.splits)

text \<open>
  The asynchronous object cache keeps one node per path. In a consistent object cache,
  \<open>fromCache p\<close> returns a reference that is stored under \<open>p\<close> and points to a node of
  path \<open>p\<close>; when nothing was stored under \<open>p\<close>, the node is a new one. After any
  run of calls of the asynchronous variant, \<open>fromCache p\<close> returns that same reference
  again and changes nothing, the cache is still consistent, and no two nodes of the heap
  have the same path.
\<close>

lemma fromCache_identity:
  assumes wf: "cache_wf st" and call: "fromCache p st = (r, st1)"
  shows "instanceCacheRecord st1 p = Some r \<and>
         r < length (nodes st1) \<and> node_path (nodes st1 ! r) = p \<and>
         (instanceCacheRecord st p = None \<longrightarrow>
            r = length (nodes st) \<and> length (nodes st1) = Suc (length (nodes st))) \<and>
         fromCache p (fold (run_call strict) calls st1)
           = (r, fold (run_call strict) calls st1) \<and>
         cache_wf (fold (run_call strict) calls st1) \<and>
         (\<forall>i j. i < length (nodes (fold (run_call strict) calls st1)) \<and>
                j < length (nodes (fold (run_call strict) calls st1)) \<and>
                node_path (nodes (fold (run_call strict) calls st1) ! i)
                  = node_path (nodes (fold (run_call strict) calls st1) ! j) \<longrightarrow> i = j)"
proof -
  have stored: "instanceCacheRecord st1 p = Some r"
    using call by (rule fromCache_stores)
  have "sinv p r (shape st)" if "instanceCacheRecord st p = Some r"
    using wf that by (simp add: sinv_def cache_wf_shape shape_def)
  have wf1: "cache_wf st1"
  proof (cases "instanceCacheRecord st p")
    case None
    show ?thesis using cache_wf_fromCache[OF wf, of p] call by simp
  next
    case (Some a)
    then show ?thesis using call wf by (simp add: fromCache_def)
  qed
  have inv1: "sinv p r (shape st1)"
    using wf1 stored by (simp add: sinv_def cache_wf_shape shape_def)
  have inv2: "sinv p r (shape (fold (run_call strict) calls st1))"
    using inv1 by (rule sinv_run_calls)
  have fresh: "instanceCacheRecord st p = None \<longrightarrow>
            r = length (nodes st) \<and> length (nodes st1) = Suc (length (nodes st))"
    using call by (auto simp: fromCache_def)
  have range: "r < length (nodes st1) \<and> node_path (nodes st1 ! r) = p"
    using wf1 stored by (simp add: cache_wf_def)
  have again: "fromCache p (fold (run_call strict) calls st1)
           = (r, fold (run_call strict) calls st1)"
    using inv2 by (intro fromCache_hit) (simp add: sinv_def shape_def)
  have wf2: "cache_wf (fold (run_call strict) calls st1)"
    using inv2 by (simp add: sinv_def cache_wf_shape)
  have one: "\<forall>i j. i < length (nodes (fold (run_call strict) calls st1)) \<and>
                j < length (nodes (fold (run_call strict) calls st1)) \<and>
                node_path (nodes (fold (run_call strict) calls st1) ! i)
                  = node_path (nodes (fold (run_call strict) calls st1) ! j) \<longrightarrow> i = j"
    using wf2 cache_wf_distinct by blast
  show ?thesis using stored range fresh again wf2 one by blast
qed

lemma fromCache_identity_example:
  "cache_wf st0 \<and>
   fst (fromCache ''/home/user/f.txt'' st0) = 0 \<and>
   fst (fromCache ''/home/user/f.txt''
          (fold (run_call False) calls0 (snd (fromCache ''/home/user/f.txt'' st0)))) = 0"
proof -
  have wf: "cache_wf st0"
    by (simp add: cache_wf_def st0_def)
  have f: "fst (fromCache ''/home/user/f.txt'' st0) = 0"
    by (simp add: fromCache_def st0_def)
  have c: "fromCache ''/home/user/f.txt'' st0 = (0, snd (fromCache ''/home/user/f.txt'' st0))"
    using f by (metis prod.collapse)
  have "fromCache ''/home/user/f.txt''
          (fold (run_call False) calls0 (snd (fromCache ''/home/user/f.txt'' st0)))
        = (0, fold (run_call False) calls0 (snd (fromCache ''/home/user/f.txt'' st0)))"
    using fromCache_identity [OF wf c, of False calls0] by blast
  then show ?thesis
    using wf f by simp
qed

text \<open>
  Claim C1 at a failing input, in the synchronous variant: \<open>fromFs("././a")\<close> and then
  \<open>fromFs("a")\<close>. The cache key of the first call is \<open>./a\<close> (\<open>fsPath\<close> removes one
  leading \<open>./\<close>), the key of the second is \<open>a\<close>, and each object gets the path
  \<open>fsPath(key)\<close>, which is \<open>a\<close> for both: the two calls return two references, and two
  live objects have the path \<open>a\<close>.
\<close>

theorem fromFs_two_objects_one_path:
  "fsPath [''././a''] = ''./a'' \<and> fsPath [''a''] = ''a'' \<and>
   fst (fromFs [''././a''] ss0) = Inr 0 \<and>
   fst (fromFs [''a''] (snd (fromFs [''././a''] ss0))) = Inr 1 \<and>
   map obj_path (objs (snd (fromFs [''a''] (snd (fromFs [''././a''] ss0))))) = [''a'', ''a'']"
  by code_simp

subsection \<open>The asynchronous write and append\<close>

lemma reading_keeps_os:
  "snd (call_method M_stat p a w) = w"
  "snd (call_method M_readdir p a w) = w"
  "snd (call_method M_readFile p a w) = w"
  by (simp_all add: call_method_def)

lemma attempt_os_keeps_os:
  assumes "\<And>w. snd (func w) = w"
  shows "os (snd (attempt_os fb func st)) = os st"
proof -
  have a: "\<And>x w' w. func w = (x, w') \<Longrightarrow> w' = w"
    using assms by (metis snd_conv)
  show ?thesis
    unfolding attempt_os_unroll
    by (auto split: prod.splits sum.splits dest: a)
qed

lemma os_attempt_reading [simp]:
  "os (snd (attempt_os fb (getBoundMethod M_stat r st' a) st)) = os st"
  "os (snd (attempt_os fb (getBoundMethod M_readdir r st' a) st)) = os st"
  "os (snd (attempt_os fb (getBoundMethod M_readFile r st' a) st)) = os st"
  by (simp_all add: getBoundMethod_def attempt_os_keeps_os reading_keeps_os)

lemma os_async_stat [simp]: "os (snd (async_stat r st)) = os st"
  by (simp add: async_stat_def split_beta split: option.splits fs_value.splits)

lemma os_async_type [simp]: "os (snd (async_type r st)) = os st"
  by (simp add: async_type_def split_beta split: option.splits)

lemma os_async_file [simp]: "os (snd (async_file r st)) = os st"
  by (simp add: async_file_def split_beta)

lemma os_async_folder [simp]: "os (snd (async_folder r st)) = os st"
  by (simp add: async_folder_def split_beta)

lemma attempt_readFile_error:
  "error (fst (attempt_os fb (call_method M_readFile p a) st)) = None
     \<longleftrightarrow> (\<exists>b. os_readFile (os st) p = Inr b)"
  unfolding attempt_os_unroll
  by (cases "os_readFile (os st) p") (simp_all add: call_method_def)

text \<open>
  Claim C10. The asynchronous \<open>write\<close> and \<open>append\<close> bind \<open>readFile\<close>: for every
  node, data and flags they leave the file system as it was, whatever they return; with
  the existence checks out of the way (\<open>overwrite\<close> set, \<open>mustExist\<close> unset) they
  report success exactly when reading the target succeeds.
\<close>

theorem async_write_append_read_only:
  "os (snd (async_write strict r buffer overwrite st)) = os st \<and>
   os (snd (async_append strict r buffer mustExist st)) = os st \<and>
   (fst (async_write False r buffer True st) = Inr True
      \<longleftrightarrow> (\<exists>b. os_readFile (os st) (node_path (nodes st ! r)) = Inr b)) \<and>
   (fst (async_append False r buffer False st) = Inr True
      \<longleftrightarrow> (\<exists>b. os_readFile (os st) (node_path (nodes st ! r)) = Inr b))"
proof -
  have w: "os (snd (async_write strict r buffer overwrite st)) = os st"
    by (simp add: async_write_def split_beta split: option.splits bool.splits)
  have a: "os (snd (async_append strict r buffer mustExist st)) = os st"
    by (simp add: async_append_def split_beta split: option.splits bool.splits)
  have rw: "fst (async_write False r buffer True st) = Inr True
      \<longleftrightarrow> (\<exists>b. os_readFile (os st) (node_path (nodes st ! r)) = Inr b)"
    using attempt_readFile_error [of VNull "node_path (nodes st ! r)" "BufferArg buffer" st]
    by (auto simp: async_write_def getBoundMethod_def split_beta split: option.splits)
  have ra: "fst (async_append False r buffer False st) = Inr True
      \<longleftrightarrow> (\<exists>b. os_readFile (os st) (node_path (nodes st ! r)) = Inr b)"
    using attempt_readFile_error [of VNull "node_path (nodes st ! r)" "BufferArg buffer" st]
    by (auto simp: async_append_def getBoundMethod_def split_beta split: option.splits)
  show ?thesis using w a rw ra by blast
qed

text \<open>
  Claim C3 at a failing input: \<open>/home/user/f.txt\<close> exists as a file, and
  \<open>write("new", false)\<close> on its node raises nothing in either mode: it returns true, and
  the file still holds its old bytes; so does \<open>write("new", true)\<close>, which returns true
  and writes nothing. The same call on a path that does not exist raises
  "Write target already exists": the test of the source is the negation of the one the
  message describes.
\<close>

theorem async_write_existing_file_no_conflict:
  "(case fromCache ''/home/user/f.txt'' st0 of
      (r, st1) \<Rightarrow>
        (fst (async_write False r ''new'' False st1),
         fst (async_write True r ''new'' False st1),
         os_readFile (os (snd (async_write False r ''new'' False st1))) ''/home/user/f.txt'',
         fst (async_write False r ''new'' True st1),
         os_readFile (os (snd (async_write False r ''new'' True st1))) ''/home/user/f.txt''))
     = (Inr True, Inr True, Inr ''old'', Inr True, Inr ''old'') \<and>
   (case fromCache ''/home/user/new.txt'' st0 of
      (r, st1) \<Rightarrow> fst (async_write False r ''new'' False st1))
     = Inl (JsError None
              ''Write target already exists at /home/user/new.txt (overwrite disabled)'')"
  by code_simp

subsection \<open>The path resolver\<close>

lemma startsWith_longer: "startsWith prefix (q @ ''/'') \<Longrightarrow> drop (length prefix) q = []"
proof -
  assume "startsWith prefix (q @ ''/'')"
  then have "length (take (length (q @ ''/'')) prefix) = length (q @ ''/'')"
    by (simp add: startsWith_def)
  then have "length q < length prefix" by simp
  then show ?thesis by simp
qed

lemma parseAsyncFsArgs_dot_or_absolute:
  "path (parseAsyncFsArgs wd args) = ''.'' \<or>
   (\<exists>p. path (parseAsyncFsArgs wd args) = replace_backslash (posix_resolve wd p))"
  by (auto simp: parseAsyncFsArgs_def Let_def split_beta startsWith_longer)

text \<open>
  Claim C5 at a failing input: with the working directory \<open>/home/user\<close>, the argument
  \<open>a\<close> resolves to \<open>/home/user/a\<close>, which lies under the working directory, and is
  left absolute; the argument \<open>..\<close> resolves to \<open>/home\<close>, which does not, and is
  re-expressed as \<open>.\<close>. The source tests \<open>prefix.startsWith(p + "/")\<close>, the working
  directory against the path, where the path should be tested against the working directory.
\<close>

theorem parseAsyncFsArgs_descendant_left_absolute:
  "path (parseAsyncFsArgs ''/home/user'' [Str ''a'']) = ''/home/user/a'' \<and>
   path (parseAsyncFsArgs ''/home/user'' [Str ''..'']) = ''.''"
  by code_simp

text \<open>
  Claim C6 at a failing input: the canonical path of \<open>..\<close> is \<open>.\<close>, and the canonical
  path of \<open>.\<close> is \<open>/home/user\<close>; the canonical path of \<open>/..\<close> is \<open>/\<close>, and the
  canonical path of \<open>/\<close> is \<open>/home/user\<close>.
\<close>

theorem parseAsyncFsArgs_not_idempotent:
  "path (parseAsyncFsArgs ''/home/user''
           [Str (path (parseAsyncFsArgs ''/home/user'' [Str ''..'']))]) = ''/home/user'' \<and>
   path (parseAsyncFsArgs ''/home/user'' [Str ''..'']) = ''.'' \<and>
   path (parseAsyncFsArgs ''/home/user''
           [Str (path (parseAsyncFsArgs ''/home/user'' [Str ''/..'']))]) = ''/home/user'' \<and>
   path (parseAsyncFsArgs ''/home/user'' [Str ''/..'']) = ''/''"
  by code_simp

subsection \<open>Children and siblings\<close>

text \<open>
  Claim C7 at a failing input: the folder \<open>/tmp/x\<close> lists the one name \<open>a\<close>, and
  \<open>children()\<close> of its node returns the node of \<open>/home/user/a\<close>, the name resolved
  against the working directory; nothing is stored under \<open>/tmp/x/a\<close>. The node of the
  file \<open>/tmp/x/a\<close> has the kind file and the parent \<open>/tmp/x\<close>, and is not among its
  parent's children: \<open>siblings()\<close> raises in strict mode and returns the node of
  \<open>/home/user/a\<close> otherwise.
\<close>

theorem async_children_resolved_against_cwd:
  "(case fromCache ''/tmp/x'' st0 of
      (r, st1) \<Rightarrow>
        (case async_children False r None st1 of
           (res, st2) \<Rightarrow>
             (os_readdir (os st1) ''/tmp/x'',
              map_sum id (map (\<lambda>c. node_path (nodes st2 ! c))) res,
              instanceCacheRecord st2 ''/tmp/x/a'')))
     = (Inr [''a''], Inr [''/home/user/a''], None) \<and>
   (case fromCache ''/tmp/x/a'' st0 of
      (c, st1) \<Rightarrow>
        (fst (async_type c st1),
         (case async_parent c st1 of
            (res, st2) \<Rightarrow> map_sum id (\<lambda>p. node_path (nodes st2 ! p)) res),
         fst (async_siblings True c st1),
         (case async_siblings False c st1 of
            (res, st2) \<Rightarrow> map_sum id (map (\<lambda>k. node_path (nodes st2 ! k))) res)))
     = (FileT, Inr ''/tmp/x'',
        Inl (JsError None ''Something went wrong finding itself on parent children''),
        Inr [''/home/user/a''])"
  by code_simp

subsection \<open>Cache invalidation in the synchronous variant\<close>

lemma keepsI:
  "(\<And>st. r < length (objs st) \<Longrightarrow>
      r < length (objs (snd (m st))) \<and>
      hidden_children (objs (snd (m st)) ! r) = hidden_children (objs st ! r) \<and>
      hidden_data (objs (snd (m st)) ! r) = hidden_data (objs st ! r)) \<Longrightarrow> keeps r m"
  by (simp add: keeps_def)

lemma keepsD:
  "keeps r m \<Longrightarrow> r < length (objs st) \<Longrightarrow>
      r < length (objs (snd (m st))) \<and>
      hidden_children (objs (snd (m st)) ! r) = hidden_children (objs st ! r) \<and>
      hidden_data (objs (snd (m st)) ! r) = hidden_data (objs st ! r)"
  by (simp add: keeps_def)

lemma keeps_sreturn [intro!]: "keeps r (sreturn x)"
  by (simp add: keeps_def sreturn_def)

lemma keeps_sthrow [intro!]: "keeps r (sthrow e)"
  by (simp add: keeps_def sthrow_def)

lemma keeps_sbind [intro!]:
  assumes m: "keeps r m" and f: "\<And>x. keeps r (f x)"
  shows "keeps r (sbind m f)"
proof (rule keepsI)
  fix st :: sync_state assume r: "r < length (objs st)"
  show "r < length (objs (snd (sbind m f st))) \<and>
      hidden_children (objs (snd (sbind m f st)) ! r) = hidden_children (objs st ! r) \<and>
      hidden_data (objs (snd (sbind m f st)) ! r) = hidden_data (objs st ! r)"
  proof (cases "m st")
    case (Pair res st1)
    have k1: "r < length (objs st1) \<and>
      hidden_children (objs st1 ! r) = hidden_children (objs st ! r) \<and>
      hidden_data (objs st1 ! r) = hidden_data (objs st ! r)"
      using keepsD[OF m r] Pair by simp
    show ?thesis
    proof (cases res)
      case (Inl e)
      then show ?thesis using Pair k1 by (simp add: sbind_def)
    next
      case (Inr x)
      have "sbind m f st = f x st1" using Pair Inr by (simp add: sbind_def)
      then show ?thesis using keepsD[OF f, of st1 x] k1 by simp
    qed
  qed
qed

lemma keeps_if [intro!]: "keeps r a \<Longrightarrow> keeps r b \<Longrightarrow> keeps r (if c then a else b)"
  by simp

lemma nth_update_stat:
  "r < length xs \<Longrightarrow>
     hidden_children ((xs[q := (xs ! q)\<lparr>hidden_stat := c\<rparr>]) ! r) = hidden_children (xs ! r) \<and>
     hidden_data ((xs[q := (xs ! q)\<lparr>hidden_stat := c\<rparr>]) ! r) = hidden_data (xs ! r)"
  by (cases "q = r") simp_all

lemma stat_generator_state: "snd (stat_generator p st) = st"
  by (simp add: stat_generator_def)

lemma run_generate_stat:
  "run_generate (stat_generator p) now st = (Entry (os_stat (disk st) p) now, st)"
  by (cases "os_stat (disk st) p") (simp_all add: run_generate_def stat_generator_def)

lemma cacheOrGenerate_stat_state:
  "snd (cacheOrGenerate c (stat_generator p) maxAge now st) = st"
  by (simp add: cacheOrGenerate_def run_generate_stat split: cached.splits)

lemma keeps_getCachedStat [intro!]: "keeps r (slift (getCachedStat maxAge q))"
proof (rule keepsI)
  fix st :: sync_state assume r: "r < length (objs st)"
  obtain c st1 where a: "cacheOrGenerate (hidden_stat (objs st ! q))
        (stat_generator (obj_path (objs st ! q))) maxAge (clock st) st = (c, st1)"
    by (cases "cacheOrGenerate (hidden_stat (objs st ! q))
        (stat_generator (obj_path (objs st ! q))) maxAge (clock st) st")
  have st1: "st1 = st" using cacheOrGenerate_stat_state[of "hidden_stat (objs st ! q)"
        "obj_path (objs st ! q)" maxAge "clock st" st] a by simp
  show "r < length (objs (snd (slift (getCachedStat maxAge q) st))) \<and>
      hidden_children (objs (snd (slift (getCachedStat maxAge q) st)) ! r)
        = hidden_children (objs st ! r) \<and>
      hidden_data (objs (snd (slift (getCachedStat maxAge q) st)) ! r) = hidden_data (objs st ! r)"
    using r nth_update_stat[OF r]
    by (simp add: slift_def getCachedStat_def a st1 split: cached.splits)
qed

lemma keeps_same_state:
  "(\<And>st. snd (m st) = snd (m' st)) \<Longrightarrow> keeps r m' \<Longrightarrow> keeps r m"
  by (simp add: keeps_def)

lemma snd_sync_type: "snd (sync_type q st) = snd (getCachedStat 100 q st)"
  by (simp add: sync_type_def split: prod.splits option.splits sum.splits)

lemma snd_sync_size: "snd (sync_size q st) = snd (getCachedStat 100 q st)"
  by (simp add: sync_size_def split: prod.splits option.splits sum.splits)

lemma keeps_sync_type [intro!]: "keeps r (slift (sync_type q))"
  by (rule keeps_same_state[OF _ keeps_getCachedStat[of r 100 q]])
     (simp add: slift_def split_beta snd_sync_type)

lemma keeps_sync_size [intro!]: "keeps r (sync_size q)"
  by (rule keeps_same_state[OF _ keeps_getCachedStat[of r 100 q]])
     (simp add: slift_def split_beta snd_sync_size)

lemma keeps_fromFs [intro!]: "keeps r (fromFs args)"
  by (rule keepsI)
     (simp add: fromFs_def Let_def nth_append split: option.splits sum.splits)

lemma keeps_sync_parent [intro!]: "keeps r (sync_parent q)"
proof (rule keepsI)
  fix st :: sync_state assume r: "r < length (objs st)"
  show "r < length (objs (snd (sync_parent q st))) \<and>
      hidden_children (objs (snd (sync_parent q st)) ! r) = hidden_children (objs st ! r) \<and>
      hidden_data (objs (snd (sync_parent q st)) ! r) = hidden_data (objs st ! r)"
    unfolding sync_parent_def Let_def by (rule keepsD[OF keeps_fromFs r])
qed

lemma keeps_os_calls [intro!]:
  "keeps r (mkdirSync p)" "keeps r (writeFileSync p b)" "keeps r (appendFileSync p b)"
  "keeps r (path_of q)"
  by (simp_all add: keeps_def mkdirSync_def writeFileSync_def appendFileSync_def path_of_def
        split: sum.splits)

lemma keeps_parents [intro!]:
  "keeps r (parent_parent q)" "keeps r (parent_type q)" "keeps r (mkdir_parent_parent q)"
  unfolding parent_parent_def parent_type_def mkdir_parent_parent_def
  by (intro keeps_sbind keeps_sync_parent keeps_sync_type keeps_os_calls)+

lemma keeps_writeToFsObj: "keeps r (writeToFsObj q isAppend v overwrite)"
  unfolding writeToFsObj_def
  by (intro keeps_sbind keeps_if keeps_sreturn keeps_sthrow keeps_sync_type keeps_sync_size
        keeps_parents keeps_os_calls)

lemma sbind_Inr:
  assumes "sbind m f st = (Inr y, st')"
  obtains x st1 where "m st = (Inr x, st1)" and "f x st1 = (Inr y, st')"
  using assms by (auto simp: sbind_def split: prod.splits sum.splits)

lemma invalidate_after_write:
  fixes st3 :: sync_state
  assumes r: "r < length (objs st3)"
    and step: "(if truthy_size sz
                then sbind (set_hidden_data r NoCache) (\<lambda>u. set_hidden_stat r NoCache)
                else sreturn ()) st3 = (Inr u2, st4)"
  shows "r < length (objs st4) \<and>
         hidden_children (objs st4 ! r) = hidden_children (objs st3 ! r) \<and>
         (truthy_size sz \<longrightarrow>
            hidden_data (objs st4 ! r) = NoCache \<and> hidden_stat (objs st4 ! r) = NoCache) \<and>
         (\<not> truthy_size sz \<longrightarrow> hidden_data (objs st4 ! r) = hidden_data (objs st3 ! r))"
  using r step
  by (auto simp: sbind_def set_hidden_data_def set_hidden_stat_def sreturn_def
           split: if_splits)

lemma writeFunc_invalidates:
  assumes r: "r < length (objs st)" and w: "writeFunc r v overwrite st = (Inr res, st')"
  shows "hidden_data (objs st' ! r) = NoCache \<and>
         (truthy_size (wsize res) \<longrightarrow> hidden_stat (objs st' ! r) = NoCache) \<and>
         hidden_children (objs st' ! r) = hidden_children (objs st ! r)"
proof -
  from w obtain s st1 where
      a1: "slift (getCachedStat 100 r) st = (Inr s, st1)" and
      b1: "sbind (set_hidden_data r NoCache) (\<lambda>u.
             sbind (writeToFsObj r False v overwrite) (\<lambda>res.
             sbind (if truthy_size (wsize res)
                    then sbind (set_hidden_data r NoCache) (\<lambda>u. set_hidden_stat r NoCache)
                    else sreturn ()) (\<lambda>u2. sreturn res))) st1 = (Inr res, st')"
    unfolding writeFunc_def by (rule sbind_Inr)
  from b1 obtain u st2 where
      a2: "set_hidden_data r NoCache st1 = (Inr u, st2)" and
      b2: "sbind (writeToFsObj r False v overwrite) (\<lambda>res.
             sbind (if truthy_size (wsize res)
                    then sbind (set_hidden_data r NoCache) (\<lambda>u. set_hidden_stat r NoCache)
                    else sreturn ()) (\<lambda>u2. sreturn res)) st2 = (Inr res, st')"
    by (rule sbind_Inr)
  from b2 obtain res1 st3 where
      a3: "writeToFsObj r False v overwrite st2 = (Inr res1, st3)" and
      b3: "sbind (if truthy_size (wsize res1)
                    then sbind (set_hidden_data r NoCache) (\<lambda>u. set_hidden_stat r NoCache)
                    else sreturn ()) (\<lambda>u2. sreturn res1) st3 = (Inr res, st')"
    by (rule sbind_Inr)
  from b3 obtain u2 st4 where
      a4: "(if truthy_size (wsize res1)
            then sbind (set_hidden_data r NoCache) (\<lambda>u. set_hidden_stat r NoCache)
            else sreturn ()) st3 = (Inr u2, st4)" and
      b4: "sreturn res1 st4 = (Inr res, st')"
    by (rule sbind_Inr)
  have e: "res1 = res" "st4 = st'" using b4 by (simp_all add: sreturn_def)
  have k1: "r < length (objs st1) \<and>
      hidden_children (objs st1 ! r) = hidden_children (objs st ! r)"
    using keepsD[OF keeps_getCachedStat r, of 100 r] a1 by simp
  have k2: "r < length (objs st2) \<and>
      hidden_children (objs st2 ! r) = hidden_children (objs st1 ! r) \<and>
      hidden_data (objs st2 ! r) = NoCache"
    using a2 k1 by (auto simp: set_hidden_data_def)
  have k3: "r < length (objs st3) \<and>
      hidden_children (objs st3 ! r) = hidden_children (objs st2 ! r) \<and>
      hidden_data (objs st3 ! r) = hidden_data (objs st2 ! r)"
    using keepsD[OF keeps_writeToFsObj, of r st2 r False v overwrite] k2 a3 by simp
  have k4: "hidden_children (objs st4 ! r) = hidden_children (objs st3 ! r) \<and>
         (truthy_size (wsize res1) \<longrightarrow>
            hidden_data (objs st4 ! r) = NoCache \<and> hidden_stat (objs st4 ! r) = NoCache) \<and>
         (\<not> truthy_size (wsize res1) \<longrightarrow> hidden_data (objs st4 ! r) = hidden_data (objs st3 ! r))"
    using invalidate_after_write[OF _ a4] k3 by blast
  show ?thesis using k1 k2 k3 k4 e by (cases "truthy_size (wsize res)") simp_all
qed

lemma appendFunc_invalidates:
  assumes r: "r < length (objs st)" and w: "appendFunc r v overwrite st = (Inr res, st')"
  shows "(truthy_size (wsize res) \<longrightarrow>
            hidden_data (objs st' ! r) = NoCache \<and> hidden_stat (objs st' ! r) = NoCache) \<and>
         (\<not> truthy_size (wsize res) \<longrightarrow> hidden_data (objs st' ! r) = hidden_data (objs st ! r)) \<and>
         hidden_children (objs st' ! r) = hidden_children (objs st ! r)"
proof -
  from w obtain s st1 where
      a1: "slift (getCachedStat 100 r) st = (Inr s, st1)" and
      b1: "sbind (writeToFsObj r True v overwrite) (\<lambda>res.
             sbind (if truthy_size (wsize res)
                    then sbind (set_hidden_data r NoCache) (\<lambda>u. set_hidden_stat r NoCache)
                    else sreturn ()) (\<lambda>u2. sreturn res)) st1 = (Inr res, st')"
    unfolding appendFunc_def by (rule sbind_Inr)
  from b1 obtain res1 st3 where
      a3: "writeToFsObj r True v overwrite st1 = (Inr res1, st3)" and
      b3: "sbind (if truthy_size (wsize res1)
                    then sbind (set_hidden_data r NoCache) (\<lambda>u. set_hidden_stat r NoCache)
                    else sreturn ()) (\<lambda>u2. sreturn res1) st3 = (Inr res, st')"
    by (rule sbind_Inr)
  from b3 obtain u2 st4 where
      a4: "(if truthy_size (wsize res1)
            then sbind (set_hidden_data r NoCache) (\<lambda>u. set_hidden_stat r NoCache)
            else sreturn ()) st3 = (Inr u2, st4)" and
      b4: "sreturn res1 st4 = (Inr res, st')"
    by (rule sbind_Inr)
  have e: "res1 = res" "st4 = st'" using b4 by (simp_all add: sreturn_def)
  have k1: "r < length (objs st1) \<and>
      hidden_children (objs st1 ! r) = hidden_children (objs st ! r) \<and>
      hidden_data (objs st1 ! r) = hidden_data (objs st ! r)"
    using keepsD[OF keeps_getCachedStat r, of 100 r] a1 by simp
  have k3: "r < length (objs st3) \<and>
      hidden_children (objs st3 ! r) = hidden_children (objs st1 ! r) \<and>
      hidden_data (objs st3 ! r) = hidden_data (objs st1 ! r)"
    using keepsD[OF keeps_writeToFsObj, of r st1 r True v overwrite] k1 a3 by simp
  have k4: "hidden_children (objs st4 ! r) = hidden_children (objs st3 ! r) \<and>
         (truthy_size (wsize res1) \<longrightarrow>
            hidden_data (objs st4 ! r) = NoCache \<and> hidden_stat (objs st4 ! r) = NoCache) \<and>
         (\<not> truthy_size (wsize res1) \<longrightarrow> hidden_data (objs st4 ! r) = hidden_data (objs st3 ! r))"
    using invalidate_after_write[OF _ a4] k3 by blast
  show ?thesis using k1 k3 k4 e by (cases "truthy_size (wsize res)") simp_all
qed

lemma getCachedStat_result:
  fixes st :: sync_state
  assumes r: "r < length (objs st)" and g: "getCachedStat maxAge r st = (d, st1)"
  shows "length (objs st1) = length (objs st) \<and>
         hidden_children (objs st1 ! r) = hidden_children (objs st ! r) \<and>
         hidden_data (objs st1 ! r) = hidden_data (objs st ! r) \<and>
         disk st1 = disk st \<and>
         (\<forall>s. d = Some (Inr s) \<longrightarrow> (\<exists>t. hidden_stat (objs st1 ! r) = Entry (Inr s) t))"
proof -
  obtain c st0 where a: "cacheOrGenerate (hidden_stat (objs st ! r))
        (stat_generator (obj_path (objs st ! r))) maxAge (clock st) st = (c, st0)"
    by (cases "cacheOrGenerate (hidden_stat (objs st ! r))
        (stat_generator (obj_path (objs st ! r))) maxAge (clock st) st")
  have st0: "st0 = st" using cacheOrGenerate_stat_state[of "hidden_stat (objs st ! r)"
        "obj_path (objs st ! r)" maxAge "clock st" st] a by simp
  show ?thesis
    using r g by (auto simp: getCachedStat_def a st0 split: cached.splits if_splits)
qed

lemma sync_type_result:
  fixes st :: sync_state
  assumes r: "r < length (objs st)" and g: "sync_type r st = (t, st1)"
  shows "length (objs st1) = length (objs st) \<and>
         hidden_children (objs st1 ! r) = hidden_children (objs st ! r) \<and>
         hidden_data (objs st1 ! r) = hidden_data (objs st ! r) \<and>
         disk st1 = disk st \<and>
         (t = FolderT \<longrightarrow>
            (\<exists>s ts. hidden_stat (objs st1 ! r) = Entry (Inr s) ts \<and> \<not> isFile s))"
proof -
  obtain d st0 where a: "getCachedStat 100 r st = (d, st0)"
    by (cases "getCachedStat 100 r st")
  have st0: "st0 = st1" using g a
    by (auto simp: sync_type_def split: option.splits sum.splits)
  have f: "t = FolderT \<longrightarrow> (\<exists>s. d = Some (Inr s) \<and> \<not> isFile s)" using g a
    by (auto simp: sync_type_def split: option.splits sum.splits if_splits)
  show ?thesis using getCachedStat_result[OF r a] f st0 by auto
qed

lemma fromFs_keeps_object:
  fixes st :: sync_state
  assumes "r < length (objs st)"
  shows "r < length (objs (snd (fromFs args st))) \<and> objs (snd (fromFs args st)) ! r = objs st ! r"
  using assms by (simp add: fromFs_def Let_def nth_append split: option.splits sum.splits)

lemma mkdirFunc_invalidates:
  assumes r: "r < length (objs st)" and m: "mkdirFunc r name st = (Inr c, st')"
  shows "hidden_children (objs st' ! r) = NoCache \<and>
         hidden_data (objs st' ! r) = hidden_data (objs st ! r) \<and>
         (\<exists>s ts. hidden_stat (objs st' ! r) = Entry (Inr s) ts \<and> \<not> isFile s)"
proof -
  have ok: "\<not> (name = [] \<or> CHR ''/'' \<in> set name \<or> CHR ''<'' \<in> set name)"
    using m by (auto simp: mkdirFunc_def sthrow_def)
  obtain t st1 where ty: "sync_type r st = (t, st1)" by (cases "sync_type r st")
  have t: "t = FolderT"
    using m ok ty
    by (auto simp: mkdirFunc_def sbind_def slift_def throw_wrong_type_def sthrow_def
             split: if_splits prod.splits sum.splits)
  have k1: "length (objs st1) = length (objs st) \<and>
         hidden_data (objs st1 ! r) = hidden_data (objs st ! r) \<and>
         (\<exists>s ts. hidden_stat (objs st1 ! r) = Entry (Inr s) ts \<and> \<not> isFile s)"
    using sync_type_result[OF r ty] t by blast
  obtain w where mk: "os_mkdir (disk st1) (obj_path (objs st1 ! r) @ ''/'' @ name) = Inr w"
    using m ok ty t
    by (auto simp: mkdirFunc_def sbind_def slift_def path_of_def mkdirSync_def
             split: if_splits prod.splits sum.splits)
  define st3 where
    "st3 = st1\<lparr>disk := w,
               objs := (objs st1)[r := (objs st1 ! r)\<lparr>hidden_children := NoCache\<rparr>]\<rparr>"
  have fin: "fromFs [obj_path (objs st3 ! r), name] st3 = (Inr c, st')"
    using m ok ty t mk r k1
    by (simp add: mkdirFunc_def sbind_def slift_def path_of_def mkdirSync_def
          set_hidden_children_def st3_def)
  have r3: "r < length (objs st3)" using r k1 by (simp add: st3_def)
  have k3: "hidden_children (objs st3 ! r) = NoCache \<and>
         hidden_data (objs st3 ! r) = hidden_data (objs st ! r) \<and>
         (\<exists>s ts. hidden_stat (objs st3 ! r) = Entry (Inr s) ts \<and> \<not> isFile s)"
    using r k1 by (auto simp: st3_def)
  have "objs st' ! r = objs st3 ! r"
    using fromFs_keeps_object[OF r3, of "[obj_path (objs st3 ! r), name]"] fin by simp
  then show ?thesis using k3 by simp
qed

lemma createFunc_invalidates:
  assumes r: "r < length (objs st)" and m: "createFunc r st = (Inr c, st')"
    and nf: "fst (sync_type r st) \<noteq> FolderT"
  shows "hidden_children (objs st' ! r) = NoCache \<and> hidden_data (objs st' ! r) = NoCache \<and>
         hidden_stat (objs st' ! r) = NoCache"
proof -
  obtain t st1 where ty: "sync_type r st = (t, st1)" by (cases "sync_type r st")
  obtain t2 st2 where ty2: "sync_type r st1 = (t2, st2)" by (cases "sync_type r st1")
  have r1: "r < length (objs st1)" using sync_type_result[OF r ty] r by simp
  have r2: "r < length (objs st2)" using sync_type_result[OF r1 ty2] r1 by simp
  have t: "t \<noteq> FolderT" using nf ty by simp
  have t2: "t2 = UnknownT"
    using m ty ty2 t
    by (auto simp: createFunc_def sbind_def slift_def throw_wrong_type_def sthrow_def
             split: if_splits prod.splits sum.splits)
  obtain w where mk: "os_mkdir (disk st2) (obj_path (objs st2 ! r)) = Inr w"
    using m ty ty2 t t2
    by (auto simp: createFunc_def sbind_def slift_def path_of_def mkdirSync_def
             split: if_splits prod.splits sum.splits)
  show ?thesis
    using m ty ty2 t t2 mk r2
    by (auto simp: createFunc_def sbind_def slift_def path_of_def mkdirSync_def sreturn_def
          set_hidden_children_def set_hidden_stat_def set_hidden_data_def)
qed

text \<open>
  Claim C2, as stated, fails. On the small machine the children of \<open>/tmp/x\<close> have been
  listed; \<open>mkdir("sub")\<close> on that node succeeds and resets its cached children only: the
  cached stat is still there when the call returns. And after \<open>f.txt\<close> has been read,
  writing the empty buffer to it succeeds and leaves the cached stat, with the old size 3,
  while the file on disk has size 0.
\<close>

theorem mkdir_keeps_cached_stat_counterexample:
  "fst (mkdirFunc 0 ''sub'' ss_listed) = Inr 2 \<and>
   hidden_stat (objs (snd (mkdirFunc 0 ''sub'' ss_listed)) ! 0)
     = Entry (Inr (Stats False True 0)) 1000 \<and>
   \<not> fully_invalidated (objs (snd (mkdirFunc 0 ''sub'' ss_listed)) ! 0) \<and>
   fst (writeFunc 0 [] True ss_read) = Inr \<lparr>wsize = Some 0, wbuffer = []\<rparr> \<and>
   hidden_stat (objs (snd (writeFunc 0 [] True ss_read)) ! 0)
     = Entry (Inr (Stats True False 3)) 1000 \<and>
   os_stat (disk (snd (writeFunc 0 [] True ss_read))) ''/home/user/f.txt''
     = Inr (Stats True False 0)"
  by code_simp

text \<open>
  Claim C2, amended. In the synchronous variant each mutating operation resets the cached
  attributes it names, for every object \<open>r\<close> of the heap: a successful \<open>write\<close> leaves
  the cached data reset, and the cached stat too when the size it reports is not zero; a
  successful \<open>append\<close> that reports a size other than zero leaves cached data and cached
  stat reset; neither touches the cached children. A successful \<open>mkdir(name)\<close> resets the
  cached children, keeps the cached data and leaves the stat of the folder cached. A
  successful \<open>create()\<close> that had to make the directory resets all three.
\<close>

theorem sync_mutations_invalidate:
  assumes r: "r < length (objs st)"
  shows
  "(\<forall>res st'. writeFunc r v overwrite st = (Inr res, st') \<longrightarrow>
      hidden_data (objs st' ! r) = NoCache \<and>
      (truthy_size (wsize res) \<longrightarrow> hidden_stat (objs st' ! r) = NoCache) \<and>
      hidden_children (objs st' ! r) = hidden_children (objs st ! r)) \<and>
   (\<forall>res st'. appendFunc r v overwrite st = (Inr res, st') \<longrightarrow>
      (truthy_size (wsize res) \<longrightarrow>
         hidden_data (objs st' ! r) = NoCache \<and> hidden_stat (objs st' ! r) = NoCache) \<and>
      hidden_children (objs st' ! r) = hidden_children (objs st ! r)) \<and>
   (\<forall>c st'. mkdirFunc r name st = (Inr c, st') \<longrightarrow>
      hidden_children (objs st' ! r) = NoCache \<and>
      hidden_data (objs st' ! r) = hidden_data (objs st ! r) \<and>
      (\<exists>s ts. hidden_stat (objs st' ! r) = Entry (Inr s) ts \<and> \<not> isFile s)) \<and>
   (\<forall>c st'. createFunc r st = (Inr c, st') \<and> fst (sync_type r st) \<noteq> FolderT \<longrightarrow>
      fully_invalidated (objs st' ! r))"
  using writeFunc_invalidates[OF r] appendFunc_invalidates[OF r] mkdirFunc_invalidates[OF r]
        createFunc_invalidates[OF r]
  unfolding fully_invalidated_def by blast

theorem sync_mutations_invalidate_witness:
  "0 < length (objs ss_read) \<and>
   fst (writeFunc 0 ''new'' True ss_read) = Inr \<lparr>wsize = Some 3, wbuffer = ''new''\<rparr> \<and>
   hidden_data (objs ss_read ! 0) = Entry (Inr ''old'') 1000 \<and>
   hidden_data (objs (snd (writeFunc 0 ''new'' True ss_read)) ! 0) = NoCache \<and>
   hidden_stat (objs (snd (writeFunc 0 ''new'' True ss_read)) ! 0) = NoCache \<and>
   fst (readFunc 0 (snd (writeFunc 0 ''new'' True ss_read))) = Inr (Some (Inr ''new''))"
proof -
  have r: "0 < length (objs ss_read)" by code_simp
  have n: "fst (readFunc 0 (snd (writeFunc 0 ''new'' True ss_read))) = Inr (Some (Inr ''new''))"
    by code_simp
  have f: "fst (writeFunc 0 ''new'' True ss_read) = Inr \<lparr>wsize = Some 3, wbuffer = ''new''\<rparr>"
    by code_simp
  have d: "hidden_data (objs ss_read ! 0) = Entry (Inr ''old'') 1000" by code_simp
  have w: "writeFunc 0 ''new'' True ss_read
             = (Inr \<lparr>wsize = Some 3, wbuffer = ''new''\<rparr>, snd (writeFunc 0 ''new'' True ss_read))"
    using f by (metis prod.collapse)
  have "hidden_data (objs (snd (writeFunc 0 ''new'' True ss_read)) ! 0) = NoCache \<and>
        (truthy_size (wsize \<lparr>wsize = Some 3, wbuffer = ''new''\<rparr>) \<longrightarrow>
           hidden_stat (objs (snd (writeFunc 0 ''new'' True ss_read)) ! 0) = NoCache)"
    using sync_mutations_invalidate[OF r, of "''new''" True "''sub''"] w by blast
  then show ?thesis using r f d n by (simp add: truthy_size_def)
qed

subsection \<open>The two variants\<close>







end
